theory Spec2Isabelle
  imports Main "HOL-Library.Word"
begin

section \<open>Common types\<close>

text \<open>
  Go's \<open>[]byte\<close> is a list of octets. \<open>time.Duration\<close> and \<open>int\<close> are 64-bit
  two's-complement integers: they are \<open>64 word\<close>, read with \<open>sint\<close> and compared
  with the signed order \<open><s\<close>; \<open>+\<close> and \<open>*\<close> wrap around as Go's do.
\<close>

type_synonym bytes = "8 word list"
type_synonym Duration = "64 word"
type_synonym go_int = "64 word"

text \<open>
  Go's \<open>error\<close> values. Each \<open>fmt.Errorf\<close> of the source is a constructor that keeps
  the formatted arguments and the wrapped error (\<open>%w\<close>); a wrapped \<open>nil\<close> is \<open>None\<close>.
  \<^item> \<open>UpstreamError\<close>: an error made outside this code (HTTP transport, data source);
  \<^item> \<open>ContextCanceled\<close>, \<open>DeadlineExceeded\<close>: the values of \<open>ctx.Err()\<close>;
  \<^item> \<open>RequestCancelled e\<close>: retry.go line 89, wrapping \<open>ctx.Err()\<close>;
  \<^item> \<open>RequestFailed n e\<close>: retry.go line 95, with the attempt count and \<open>lastErr\<close>;
  \<^item> \<open>FetchDataFailed p e\<close>: fetcher.go line 92, with the platform name;
  \<^item> \<open>CacheMiss k\<close>: cache.go line 167, with the key;
  \<^item> \<open>L1InitFailed e\<close>: cache.go line 54; \<open>RedisConnectFailed e\<close>: cache.go line 126.
\<close>

datatype error =
    UpstreamError string
  | ContextCanceled
  | DeadlineExceeded
  | RequestCancelled error
  | RequestFailed go_int "error option"
  | FetchDataFailed string error
  | CacheMiss string
  | L1InitFailed error
  | RedisConnectFailed error

section \<open>Retry executor (internal/routes/retry.go)\<close>

record RetryConfig =
  MaxRetries :: go_int
  InitialDelay :: Duration
  MaxDelay :: Duration

definition DefaultRetryConfig :: RetryConfig where
  "DefaultRetryConfig =
     \<lparr>MaxRetries = 3, InitialDelay = 1000000000, MaxDelay = 5000000000\<rparr>"

text \<open>
  The environment of one \<open>FetchWithRetry\<close> call.
  \<^item> \<open>http_client\<close>: what \<open>client.Get(url, headers)\<close> returns on its \<open>i\<close>-th
    invocation of this call (counted from 0): the pair \<open>(body, err)\<close> of the source.
  \<^item> \<open>Context\<close>: which case of the \<open>select\<close> fires on the \<open>j\<close>-th wait (counted
    from 0): \<open>None\<close> when the timer fires, \<open>Some e\<close> when \<open>ctx.Done()\<close> fires, with
    \<open>e\<close> the value of \<open>ctx.Err()\<close>.
  The trace counts the invocations and lists the waits with the delay that was asked for.
\<close>

type_synonym headers = "string \<rightharpoonup> string"
type_synonym http_client = "string \<Rightarrow> headers \<Rightarrow> nat \<Rightarrow> bytes \<times> error option"
type_synonym Context = "nat \<Rightarrow> error option"

datatype wait_event = Slept Duration | Interrupted Duration

record retry_trace =
  calls :: nat
  waits :: "wait_event list"

text \<open>Lines 78 to 81: the delay before the retry that follows attempt \<open>attempt\<close>.\<close>

definition delayDuration :: "RetryConfig \<Rightarrow> go_int \<Rightarrow> Duration" where
  "delayDuration config attempt =
     (let d = (attempt + 1) * InitialDelay config
      in if MaxDelay config <s d then MaxDelay config else d)"

text \<open>
  The \<open>for\<close> loop of lines 61 to 92, from the head of the iteration \<open>attempt\<close>. The
  result is the pair the source returns (\<open>None\<close> for \<open>nil\<close>) and the trace.
\<close>

function retry_loop ::
  "Context \<Rightarrow> http_client \<Rightarrow> string \<Rightarrow> headers \<Rightarrow> RetryConfig \<Rightarrow> go_int \<Rightarrow>
   error option \<Rightarrow> retry_trace \<Rightarrow> (bytes option \<times> error option) \<times> retry_trace" where
  "retry_loop ctx client url hdrs config attempt lastErr tr =
     (if attempt <s MaxRetries config then
        (case client url hdrs (calls tr) of (body, err) \<Rightarrow>
           let tr1 = tr\<lparr>calls := Suc (calls tr)\<rparr> in
           if err = None \<and> 0 < length body then ((Some body, None), tr1)
           else if attempt <s MaxRetries config - 1 then
             (case ctx (length (waits tr1)) of
                None \<Rightarrow>
                  retry_loop ctx client url hdrs config (attempt + 1) err
                    (tr1\<lparr>waits := waits tr1 @ [Slept (delayDuration config attempt)]\<rparr>)
              | Some e \<Rightarrow>
                  ((None, Some (RequestCancelled e)),
                   tr1\<lparr>waits := waits tr1 @ [Interrupted (delayDuration config attempt)]\<rparr>))
           else retry_loop ctx client url hdrs config (attempt + 1) err tr1)
      else ((None, Some (RequestFailed (MaxRetries config) lastErr)), tr))"
  by pat_completeness auto
termination
proof (relation "measure (\<lambda>(ctx, client, url, hdrs, config, attempt, lastErr, tr).
                   nat (sint (MaxRetries config) - sint attempt))")
  show "wf (measure (\<lambda>(ctx, client, url, hdrs, config, attempt, lastErr, tr).
                   nat (sint (MaxRetries config) - sint attempt)))"
    by simp
next
  have step: "sint (a + 1) = sint a + 1" if "a <s m" for a m :: go_int
  proof -
    have lt: "sint a < sint m" using that by (simp add: word_sless_alt)
    have ra: "- (2 ^ 63) \<le> sint a" using sint_range_size [of a] by (simp add: word_size)
    have rm: "sint m < 2 ^ 63" using sint_range_size [of m] by (simp add: word_size)
    have "sint (a + 1) = signed_take_bit 63 (sint a + 1)"
      by (simp add: sint_word_ariths)
    also have "\<dots> = sint a + 1"
      by (rule signed_take_bit_int_eq_self) (use lt ra rm in auto)
    finally show ?thesis .
  qed
  have dec: "nat (sint m - sint (a + 1)) < nat (sint m - sint a)" if "a <s m" for a m :: go_int
    using step [OF that] that by (simp add: word_sless_alt)
  {
    fix ctx :: Context and client :: http_client and url :: string and hdrs :: headers
      and config :: RetryConfig and attempt :: go_int and lastErr :: "error option"
      and tr :: retry_trace and x y tr1
    assume "attempt <s MaxRetries config"
    then show "((ctx, client, url, hdrs, config, attempt + 1, y,
                 tr1\<lparr>waits := waits tr1 @ [Slept (delayDuration config attempt)]\<rparr>),
                ctx, client, url, hdrs, config, attempt, lastErr, tr)
               \<in> measure (\<lambda>(ctx, client, url, hdrs, config, attempt, lastErr, tr).
                   nat (sint (MaxRetries config) - sint attempt))"
      using dec by simp
  }
  {
    fix ctx :: Context and client :: http_client and url :: string and hdrs :: headers
      and config :: RetryConfig and attempt :: go_int and lastErr :: "error option"
      and tr :: retry_trace and x y tr1
    assume "attempt <s MaxRetries config"
    then show "((ctx, client, url, hdrs, config, attempt + 1, y, tr1),
                ctx, client, url, hdrs, config, attempt, lastErr, tr)
               \<in> measure (\<lambda>(ctx, client, url, hdrs, config, attempt, lastErr, tr).
                   nat (sint (MaxRetries config) - sint attempt))"
      using dec by simp
  }
qed

declare retry_loop.simps [simp del]

text \<open>\<open>FetchWithRetry\<close>: the loop from \<open>attempt = 0\<close> with \<open>lastErr = nil\<close>.\<close>

definition FetchWithRetry ::
  "Context \<Rightarrow> http_client \<Rightarrow> string \<Rightarrow> headers \<Rightarrow> RetryConfig \<Rightarrow>
   (bytes option \<times> error option) \<times> retry_trace" where
  "FetchWithRetry ctx client url hdrs config =
     retry_loop ctx client url hdrs config 0 None \<lparr>calls = 0, waits = []\<rparr>"

definition FetchWithDefaultRetry ::
  "Context \<Rightarrow> http_client \<Rightarrow> string \<Rightarrow> headers \<Rightarrow>
   (bytes option \<times> error option) \<times> retry_trace" where
  "FetchWithDefaultRetry ctx client url hdrs =
     FetchWithRetry ctx client url hdrs DefaultRetryConfig"

text \<open>The success test of line 64: \<open>err == nil && len(body) > 0\<close>.\<close>

definition attempt_ok :: "bytes \<times> error option \<Rightarrow> bool" where
  "attempt_ok r = (snd r = None \<and> 0 < length (fst r))"

text \<open>Concrete environments, used to run the executor on explicit inputs.\<close>

definition never_done :: Context where
  "never_done = (\<lambda>j. None)"

definition cancelled_ctx :: Context where
  "cancelled_ctx = (\<lambda>j. if j = 1 then Some ContextCanceled else None)"

definition flaky_client :: http_client where
  "flaky_client = (\<lambda>url hdrs i.
     if i = 0 then ([], Some (UpstreamError ''connection reset''))
     else if i = 1 then ([], None)
     else ([104, 105], None))"

definition dead_client :: http_client where
  "dead_client = (\<lambda>url hdrs i.
     if i = 2 then ([], None) else ([], Some (UpstreamError ''connection reset'')))"

section \<open>Normalized records (internal/models/response.go)\<close>

text \<open>
  \<open>Hot\<close> and \<open>Timestamp\<close> are \<open>interface{}\<close> in the source: a number, a string or nil.
\<close>

datatype dynamic = DNil | DNumber int | DString string

record HotData =
  ID :: string
  Title :: string
  Desc :: string
  Cover :: string
  Author :: string
  Hot :: dynamic
  Timestamp :: dynamic
  URL :: string
  MobileURL :: string

section \<open>Object pool (package pool)\<close>

text \<open>
  A Go slice, as far as pooling sees it: its elements (\<open>len\<close> is their number) and the
  capacity of its backing array. \<open>s[:0]\<close> keeps the capacity and drops the elements.
\<close>

record 'a slice =
  elems :: "'a list"
  capacity :: nat

definition make_slice :: "nat \<Rightarrow> 'a slice" where
  "make_slice c = \<lparr>elems = [], capacity = c\<rparr>"

definition reslice0 :: "'a slice \<Rightarrow> 'a slice" where
  "reslice0 s = s\<lparr>elems := []\<rparr>"

text \<open>
  \<open>sync.Pool\<close> holds the items that were put. \<open>Get\<close> removes and returns an arbitrary
  item, or treats the pool as empty and calls \<open>New\<close>: the choice is the argument
  \<open>pick\<close> (\<open>Some i\<close> takes the item at position \<open>i\<close> when there is one).
\<close>

definition pool_Get :: "'a list \<Rightarrow> 'a \<Rightarrow> nat option \<Rightarrow> 'a \<times> 'a list" where
  "pool_Get items new pick =
     (case pick of
        None \<Rightarrow> (new, items)
      | Some i \<Rightarrow>
          if i < length items then (items ! i, take i items @ drop (Suc i) items)
          else (new, items))"

definition pool_Put :: "'a list \<Rightarrow> 'a \<Rightarrow> 'a list" where
  "pool_Put items x = x # items"

record ObjectPool =
  responseBufferPool :: "8 word slice list"
  hotDataListPool :: "HotData slice list"

definition NewObjectPool :: ObjectPool where
  "NewObjectPool = \<lparr>responseBufferPool = [], hotDataListPool = []\<rparr>"

definition AcquireResponseBuffer :: "ObjectPool \<Rightarrow> nat option \<Rightarrow> 8 word slice \<times> ObjectPool" where
  "AcquireResponseBuffer p pick =
     (case pool_Get (responseBufferPool p) (make_slice (256 * 1024)) pick of
        (buf, rest) \<Rightarrow> (reslice0 buf, p\<lparr>responseBufferPool := rest\<rparr>))"

definition ReleaseResponseBuffer :: "ObjectPool \<Rightarrow> 8 word slice \<Rightarrow> ObjectPool" where
  "ReleaseResponseBuffer p buf =
     (if capacity buf \<le> 512 * 1024
      then p\<lparr>responseBufferPool := pool_Put (responseBufferPool p) buf\<rparr>
      else p)"

definition AcquireHotDataList :: "ObjectPool \<Rightarrow> nat option \<Rightarrow> HotData slice \<times> ObjectPool" where
  "AcquireHotDataList p pick =
     (case pool_Get (hotDataListPool p) (make_slice 50) pick of
        (list, rest) \<Rightarrow> (reslice0 list, p\<lparr>hotDataListPool := rest\<rparr>))"

definition ReleaseHotDataList :: "ObjectPool \<Rightarrow> HotData slice \<Rightarrow> ObjectPool" where
  "ReleaseHotDataList p list =
     (if capacity list \<le> 200
      then p\<lparr>hotDataListPool := pool_Put (hotDataListPool p) list\<rparr>
      else p)"

text \<open>
  A client of the pool: any sequence of the four operations. \<open>run_pool\<close> threads the
  pool through the sequence and collects what the acquires returned.
\<close>

datatype pool_op =
    AcquireBuf "nat option"
  | ReleaseBuf "8 word slice"
  | AcquireList "nat option"
  | ReleaseList "HotData slice"

datatype pool_out = GotBuf "8 word slice" | GotList "HotData slice"

fun run_pool :: "ObjectPool \<Rightarrow> pool_op list \<Rightarrow> pool_out list \<times> ObjectPool" where
  "run_pool p [] = ([], p)"
| "run_pool p (AcquireBuf pick # ops) =
     (case AcquireResponseBuffer p pick of (buf, p') \<Rightarrow>
        case run_pool p' ops of (outs, q) \<Rightarrow> (GotBuf buf # outs, q))"
| "run_pool p (ReleaseBuf buf # ops) = run_pool (ReleaseResponseBuffer p buf) ops"
| "run_pool p (AcquireList pick # ops) =
     (case AcquireHotDataList p pick of (list, p') \<Rightarrow>
        case run_pool p' ops of (outs, q) \<Rightarrow> (GotList list # outs, q))"
| "run_pool p (ReleaseList list # ops) = run_pool (ReleaseHotDataList p list) ops"

text \<open>No pooled container is above its guard threshold.\<close>

definition pool_bounded :: "ObjectPool \<Rightarrow> bool" where
  "pool_bounded p =
     (list_all (\<lambda>b. capacity b \<le> 512 * 1024) (responseBufferPool p) \<and>
      list_all (\<lambda>l. capacity l \<le> 200) (hotDataListPool p))"

fun out_ok :: "pool_out \<Rightarrow> bool" where
  "out_ok (GotBuf b) = (elems b = [] \<and> capacity b \<le> 512 * 1024)"
| "out_ok (GotList l) = (elems l = [] \<and> capacity l \<le> 200)"

text \<open>Concrete containers, used to run the pool on explicit inputs.\<close>

definition huge_buf :: "8 word slice" where
  "huge_buf = \<lparr>elems = [1, 2, 3], capacity = 1048576\<rparr>"

definition used_buf :: "8 word slice" where
  "used_buf = \<lparr>elems = [7, 7], capacity = 524288\<rparr>"

definition huge_list :: "HotData slice" where
  "huge_list = \<lparr>elems = [], capacity = 201\<rparr>"

section \<open>Configuration (internal/config/config.go)\<close>

text \<open>
  The fields of \<open>Config.Cache\<close> and \<open>Config.Redis\<close> that the cache manager reads, with
  the sub-structure's name as a prefix.
\<close>

record Config =
  Cache_Enabled :: bool
  Cache_DefaultExpire :: Duration
  Cache_CleanupInterval :: Duration
  Cache_MaxEntries :: go_int
  Cache_MaxEntrySize :: go_int
  Cache_HardMaxCacheSize :: go_int
  Redis_Enabled :: bool
  Redis_Timeout :: Duration

text \<open>\<open>setDefaults\<close>: five minutes of default expiry, Redis off.\<close>

definition default_Config :: Config where
  "default_Config =
     \<lparr>Cache_Enabled = True, Cache_DefaultExpire = 300000000000,
      Cache_CleanupInterval = 600000000000, Cache_MaxEntries = 10000,
      Cache_MaxEntrySize = 500, Cache_HardMaxCacheSize = 256,
      Redis_Enabled = False, Redis_Timeout = 5000000000\<rparr>"

section \<open>The two tiers, as the manager uses them\<close>

text \<open>
  BigCache and Redis are libraries outside the repository. They are modelled by the
  contract the manager relies on. Time is the wall clock in nanoseconds, an \<open>int\<close>.
  \<^item> BigCache: \<open>Set(key, value)\<close> takes no expiry; an entry lives for the \<open>LifeWindow\<close>
    of the cache's configuration, counted from the write. \<open>Get\<close> returns the value of a
    live entry, else \<open>ErrEntryNotFound\<close>.
  \<^item> Redis: \<open>Set(ctx, key, value, expiration)\<close> stores the entry with that time to live
    when it is positive, without expiry otherwise. \<open>Get\<close> returns the value of a live
    entry, else \<open>redis.Nil\<close>.
  \<^item> An operation that fails (a rejected entry, a network error) leaves the tier as it
    was. Whether an operation fails is the environment's choice.
  \<^item> Eviction under memory pressure and other clients of the Redis server are left out:
    between two calls a tier changes by expiry only.
\<close>

record bigcache_Config =
  Shards :: go_int
  LifeWindow :: Duration
  CleanWindow :: Duration
  MaxEntriesInWindow :: go_int
  MaxEntrySize :: go_int
  HardMaxCacheSize :: go_int
  Verbose :: bool

record BigCache =
  bc_config :: bigcache_Config
  bc_entries :: "string \<rightharpoonup> bytes \<times> int"

definition bigcache_New :: "bigcache_Config \<Rightarrow> BigCache" where
  "bigcache_New config = \<lparr>bc_config = config, bc_entries = Map.empty\<rparr>"

definition bigcache_Get :: "BigCache \<Rightarrow> int \<Rightarrow> string \<Rightarrow> bytes option" where
  "bigcache_Get c t key =
     (case bc_entries c key of
        None \<Rightarrow> None
      | Some (v, stored) \<Rightarrow>
          if t < stored + sint (LifeWindow (bc_config c)) then Some v else None)"

definition bigcache_Set :: "BigCache \<Rightarrow> bool \<Rightarrow> int \<Rightarrow> string \<Rightarrow> bytes \<Rightarrow> BigCache" where
  "bigcache_Set c ok t key v =
     (if ok then c\<lparr>bc_entries := (bc_entries c)(key \<mapsto> (v, t))\<rparr> else c)"

definition bigcache_Delete :: "BigCache \<Rightarrow> bool \<Rightarrow> string \<Rightarrow> BigCache" where
  "bigcache_Delete c ok key =
     (if ok then c\<lparr>bc_entries := (bc_entries c)(key := None)\<rparr> else c)"

record redis_entry =
  re_value :: bytes
  re_stored :: int
  re_ttl :: "Duration option"

type_synonym Redis = "string \<rightharpoonup> redis_entry"

definition redis_live :: "redis_entry \<Rightarrow> int \<Rightarrow> bool" where
  "redis_live e t = (case re_ttl e of None \<Rightarrow> True | Some d \<Rightarrow> t < re_stored e + sint d)"

text \<open>\<open>Inl True\<close> is \<open>redis.Nil\<close> (no such key), \<open>Inl False\<close> any other error.\<close>

definition redis_Get :: "Redis \<Rightarrow> bool \<Rightarrow> int \<Rightarrow> string \<Rightarrow> bool + bytes" where
  "redis_Get r ok t key =
     (if \<not> ok then Inl False
      else case r key of
        None \<Rightarrow> Inl True
      | Some e \<Rightarrow> if redis_live e t then Inr (re_value e) else Inl True)"

definition redis_Set :: "Redis \<Rightarrow> bool \<Rightarrow> int \<Rightarrow> string \<Rightarrow> bytes \<Rightarrow> Duration \<Rightarrow> Redis" where
  "redis_Set r ok t key v expiration =
     (if ok
      then r(key \<mapsto> \<lparr>re_value = v, re_stored = t,
                       re_ttl = (if 0 <s expiration then Some expiration else None)\<rparr>)
      else r)"

definition redis_Del :: "Redis \<Rightarrow> bool \<Rightarrow> string \<Rightarrow> Redis" where
  "redis_Del r ok key = (if ok then r(key := None) else r)"

text \<open>
  The environment of one call of the manager: the clock, and whether each tier operation
  of the call succeeds.
\<close>

record env =
  now :: int
  l1_set_ok :: bool
  l1_del_ok :: bool
  l2_get_ok :: bool
  l2_set_ok :: bool
  l2_del_ok :: bool

text \<open>The tier operations a call performs, in order, with their arguments.\<close>

datatype access =
    L1_Get string
  | L1_Set string bytes
  | L1_Delete string
  | L2_Get string
  | L2_Set string bytes Duration
  | L2_Del string

section \<open>Cache manager (internal/cache/cache.go)\<close>

text \<open>
  The fields of \<open>Manager\<close> are unexported and \<open>NewManager\<close> is its only constructor, so
  an enabled tier is never nil; a disabled tier is never touched and is modelled by an
  unused store.
\<close>

record Manager =
  l1Cache :: BigCache
  l2Cache :: Redis
  cfg :: Config
  l1Enabled :: bool
  l2Enabled :: bool

text \<open>\<open>initL1Cache\<close>, lines 74 to 106: \<open>ok\<close> says whether \<open>bigcache.New\<close> succeeds.\<close>

definition initL1Cache :: "Manager \<Rightarrow> bool \<Rightarrow> error + Manager" where
  "initL1Cache m ok =
     (let config =
        \<lparr>Shards = 1024,
         LifeWindow = Cache_DefaultExpire (cfg m),
         CleanWindow = Cache_CleanupInterval (cfg m),
         MaxEntriesInWindow = Cache_MaxEntries (cfg m) * 10,
         MaxEntrySize = Cache_MaxEntrySize (cfg m),
         HardMaxCacheSize = Cache_HardMaxCacheSize (cfg m),
         Verbose = False\<rparr>
      in if ok then Inr (m\<lparr>l1Cache := bigcache_New config\<rparr>)
         else Inl (UpstreamError ''bigcache.New''))"

text \<open>
  \<open>initL2Cache\<close>, lines 109 to 131: \<open>server\<close> is the Redis server the client connects
  to, \<open>ok\<close> says whether the ping succeeds.
\<close>

definition initL2Cache :: "Manager \<Rightarrow> Redis \<Rightarrow> bool \<Rightarrow> error + Manager" where
  "initL2Cache m server ok =
     (if ok then Inr (m\<lparr>l2Cache := server\<rparr>)
      else Inl (RedisConnectFailed (UpstreamError ''ping'')))"

definition NewManager :: "Config \<Rightarrow> bool \<Rightarrow> Redis \<Rightarrow> bool \<Rightarrow> error + Manager" where
  "NewManager c l1_ok server l2_ok =
     (let m = \<lparr>l1Cache = bigcache_New
                  \<lparr>Shards = 0, LifeWindow = 0, CleanWindow = 0, MaxEntriesInWindow = 0,
                   MaxEntrySize = 0, HardMaxCacheSize = 0, Verbose = False\<rparr>,
               l2Cache = Map.empty, cfg = c,
               l1Enabled = Cache_Enabled c, l2Enabled = Redis_Enabled c\<rparr>
      in case (if l1Enabled m then initL1Cache m l1_ok else Inr m) of
           Inl err \<Rightarrow> Inl (L1InitFailed err)
         | Inr m1 \<Rightarrow>
             if l2Enabled m1 then
               (case initL2Cache m1 server l2_ok of
                  Inl err \<Rightarrow> Inr (m1\<lparr>l2Enabled := False\<rparr>)
                | Inr m2 \<Rightarrow> Inr m2)
             else Inr m1)"

text \<open>
  \<open>Manager.Get\<close>, lines 138 to 168. The result is the pair the source returns, the
  manager after the call and the tier operations performed.
\<close>

definition Get ::
  "Manager \<Rightarrow> env \<Rightarrow> string \<Rightarrow> (bytes option \<times> error option) \<times> Manager \<times> access list" where
  "Get m e key =
     (case (if l1Enabled m then bigcache_Get (l1Cache m) (now e) key else None) of
        Some data \<Rightarrow> ((Some data, None), m, [L1_Get key])
      | None \<Rightarrow>
          let tr = (if l1Enabled m then [L1_Get key] else []) in
          if l2Enabled m then
            (case redis_Get (l2Cache m) (l2_get_ok e) (now e) key of
               Inr data \<Rightarrow>
                 if l1Enabled m
                 then ((Some data, None),
                       m\<lparr>l1Cache := bigcache_Set (l1Cache m) (l1_set_ok e) (now e) key data\<rparr>,
                       tr @ [L2_Get key, L1_Set key data])
                 else ((Some data, None), m, tr @ [L2_Get key])
             | Inl nil \<Rightarrow> ((None, Some (CacheMiss key)), m, tr @ [L2_Get key]))
          else ((None, Some (CacheMiss key)), m, tr))"

text \<open>\<open>Manager.Set\<close>, lines 172 to 197. It always returns a nil error.\<close>

definition Set ::
  "Manager \<Rightarrow> env \<Rightarrow> string \<Rightarrow> bytes \<Rightarrow> Duration \<Rightarrow> error option \<times> Manager \<times> access list" where
  "Set m e key v expiration =
     (let expiration1 = (if expiration = 0 then Cache_DefaultExpire (cfg m) else expiration);
          (m1, tr1) =
            (if l1Enabled m
             then (m\<lparr>l1Cache := bigcache_Set (l1Cache m) (l1_set_ok e) (now e) key v\<rparr>,
                   [L1_Set key v])
             else (m, []));
          (m2, tr2) =
            (if l2Enabled m1
             then (m1\<lparr>l2Cache := redis_Set (l2Cache m1) (l2_set_ok e) (now e) key v expiration1\<rparr>,
                   [L2_Set key v expiration1])
             else (m1, []))
      in (None, m2, tr1 @ tr2))"

text \<open>\<open>Manager.Delete\<close>, lines 201 to 217.\<close>

definition Delete :: "Manager \<Rightarrow> env \<Rightarrow> string \<Rightarrow> error option \<times> Manager \<times> access list" where
  "Delete m e key =
     (let (m1, tr1) =
            (if l1Enabled m
             then (m\<lparr>l1Cache := bigcache_Delete (l1Cache m) (l1_del_ok e) key\<rparr>, [L1_Delete key])
             else (m, []));
          (m2, tr2) =
            (if l2Enabled m1
             then (m1\<lparr>l2Cache := redis_Del (l2Cache m1) (l2_del_ok e) key\<rparr>, [L2_Del key])
             else (m1, []))
      in (None, m2, tr1 @ tr2))"

section \<open>Response envelope (internal/models/response.go)\<close>

text \<open>
  \<open>UpdateTime\<close> is the clock reading that \<open>getCurrentTime\<close> formats; \<open>Params\<close> is nil
  in every response built here and is left out.
\<close>

record Response =
  Code :: int
  Message :: string
  Name :: string
  Title :: string
  Type :: string
  Description :: string
  Link :: string
  UpdateTime :: int
  Total :: nat
  FromCache :: bool
  Data :: "HotData list"

definition SuccessResponse ::
  "int \<Rightarrow> string \<Rightarrow> string \<Rightarrow> string \<Rightarrow> string \<Rightarrow> string \<Rightarrow> HotData list \<Rightarrow> bool \<Rightarrow> Response" where
  "SuccessResponse t name title typeStr description link data fromCache =
     \<lparr>Code = 200, Message = ''success'', Name = name, Title = title, Type = typeStr,
      Description = description, Link = link, UpdateTime = t, Total = length data,
      FromCache = fromCache, Data = data\<rparr>"

definition SimpleSuccessResponse :: "int \<Rightarrow> string \<Rightarrow> string \<Rightarrow> HotData list \<Rightarrow> bool \<Rightarrow> Response" where
  "SimpleSuccessResponse t name typeStr data fromCache =
     SuccessResponse t name name typeStr [] [] data fromCache"

section \<open>Fetch orchestrator (internal/service/fetcher.go)\<close>

text \<open>
  \<open>encoding/json\<close> is outside the repository: \<open>GetData\<close> takes the two functions it
  calls as a parameter. Each returns the value or an error.
\<close>

record json_codec =
  Marshal :: "HotData list \<Rightarrow> error + bytes"
  Unmarshal :: "bytes \<Rightarrow> error + HotData list"

text \<open>
  \<open>FetchFunc\<close>: the data source. Calling it yields the pair \<open>(list, err)\<close> of the source;
  \<open>GetData\<close> reports how many times it called it.
\<close>

type_synonym FetchFunc = "unit \<Rightarrow> HotData list \<times> error option"

record Fetcher =
  cache :: Manager
  objectPool :: ObjectPool

definition NewFetcher :: "Manager \<Rightarrow> Fetcher" where
  "NewFetcher cacheManager = \<lparr>cache = cacheManager, objectPool = NewObjectPool\<rparr>"

text \<open>A nil byte slice reads as the empty one.\<close>

definition bytes_of :: "bytes option \<Rightarrow> bytes" where
  "bytes_of b = (case b of None \<Rightarrow> [] | Some v \<Rightarrow> v)"

record effects =
  fetch_calls :: nat
  accesses :: "access list"

text \<open>
  Lines 65 to 78: the list a lookup result gives, if it is a hit that deserializes.
\<close>

definition cached_list :: "json_codec \<Rightarrow> bytes option \<times> error option \<Rightarrow> HotData list option" where
  "cached_list json r =
     (case r of (cachedData, err) \<Rightarrow>
        if err = None
        then (case Unmarshal json (bytes_of cachedData) of
                Inr hotDataList \<Rightarrow> Some hotDataList
              | Inl uerr \<Rightarrow> None)
        else None)"

text \<open>
  Lines 96 to 106: a non-empty list is serialized and written through \<open>Manager.Set\<close>;
  an empty list, or one that does not serialize, is not written.
\<close>

definition write_back ::
  "Manager \<Rightarrow> json_codec \<Rightarrow> env \<Rightarrow> string \<Rightarrow> HotData list \<Rightarrow> Duration \<Rightarrow> Manager \<times> access list" where
  "write_back m1 json e2 cacheKey hotDataList cacheDuration =
     (if 0 < length hotDataList then
        (case Marshal json hotDataList of
           Inr dataBytes \<Rightarrow>
             (case Set m1 e2 cacheKey dataBytes cacheDuration of (serr, m, tr) \<Rightarrow> (m, tr))
         | Inl merr \<Rightarrow> (m1, []))
      else (m1, []))"

text \<open>
  \<open>GetData\<close>, lines 55 to 111. \<open>e\<close> is the environment of the cache lookup, \<open>e2\<close> that of
  the write that follows the fetch. The result is the pair the source returns, the
  fetcher after the call (its cache is shared state) and what the call did.
\<close>

definition GetData ::
  "Fetcher \<Rightarrow> json_codec \<Rightarrow> env \<Rightarrow> env \<Rightarrow> string \<Rightarrow> string \<Rightarrow> string \<Rightarrow> Duration \<Rightarrow> FetchFunc \<Rightarrow>
   (Response option \<times> error option) \<times> Fetcher \<times> effects" where
  "GetData f json e e2 cacheKey platformName subtitle cacheDuration fetchFunc =
     (case Get (cache f) e cacheKey of ((cachedData, err), m1, tr1) \<Rightarrow>
        case cached_list json (cachedData, err) of
          Some hotDataList \<Rightarrow>
            ((Some (SimpleSuccessResponse (now e) platformName subtitle hotDataList True), None),
             f\<lparr>cache := m1\<rparr>, \<lparr>fetch_calls = 0, accesses = tr1\<rparr>)
        | None \<Rightarrow>
            (case fetchFunc () of (hotDataList, ferr) \<Rightarrow>
               case ferr of
                 Some err1 \<Rightarrow>
                   ((None, Some (FetchDataFailed platformName err1)),
                    f\<lparr>cache := m1\<rparr>, \<lparr>fetch_calls = 1, accesses = tr1\<rparr>)
               | None \<Rightarrow>
                   (case write_back m1 json e2 cacheKey hotDataList cacheDuration of
                      (m2, tr2) \<Rightarrow>
                        ((Some (SimpleSuccessResponse (now e2) platformName subtitle
                                  hotDataList False),
                          None),
                         f\<lparr>cache := m2\<rparr>, \<lparr>fetch_calls = 1, accesses = tr1 @ tr2\<rparr>))))"

text \<open>\<open>InvalidateCache\<close>, lines 121 to 123.\<close>

definition InvalidateCache :: "Fetcher \<Rightarrow> env \<Rightarrow> string \<Rightarrow> error option \<times> Fetcher \<times> access list" where
  "InvalidateCache f e cacheKey =
     (case Delete (cache f) e cacheKey of (err, m, tr) \<Rightarrow> (err, f\<lparr>cache := m\<rparr>, tr))"

section \<open>Invariant and concrete scenarios\<close>

text \<open>
  What \<open>initL1Cache\<close> establishes and no operation changes: the life window of an
  enabled L1 is the configured default expiry.
\<close>

definition wf_manager :: "Manager \<Rightarrow> bool" where
  "wf_manager m =
     (l1Enabled m \<longrightarrow> LifeWindow (bc_config (l1Cache m)) = Cache_DefaultExpire (cfg m))"

text \<open>
  The expiry that \<open>Manager.Set\<close> hands to Redis (lines 174 to 176), and whether a Redis
  entry written at \<open>stored\<close> with it is live at \<open>t\<close>.
\<close>

definition l2_expiration :: "Manager \<Rightarrow> Duration \<Rightarrow> Duration" where
  "l2_expiration m ttl = (if ttl = 0 then Cache_DefaultExpire (cfg m) else ttl)"

definition l2_live_at :: "Duration \<Rightarrow> int \<Rightarrow> int \<Rightarrow> bool" where
  "l2_live_at expiration stored t = (if 0 <s expiration then t < stored + sint expiration else True)"

text \<open>
  The scenario of the specification: key \<open>demo_hot\<close>, one record, and the bytes
  \<open>[{"id":"1","title":"A","url":"http://x/1"}]\<close> that \<open>json.Marshal\<close> produces for it.
  \<open>demo_json\<close> is \<open>encoding/json\<close> on these two values, an error elsewhere.
\<close>

definition demo_record :: HotData where
  "demo_record =
     \<lparr>ID = ''1'', Title = ''A'', Desc = [], Cover = [], Author = [], Hot = DNil,
      Timestamp = DNil, URL = ''http://x/1'', MobileURL = []\<rparr>"

definition demo_bytes :: bytes where
  "demo_bytes =
     [91, 123, 34, 105, 100, 34, 58, 34, 49, 34, 44, 34, 116, 105, 116, 108, 101, 34, 58, 34,
      65, 34, 44, 34, 117, 114, 108, 34, 58, 34, 104, 116, 116, 112, 58, 47, 47, 120, 47, 49,
      34, 125, 93]"

definition demo_json :: json_codec where
  "demo_json =
     \<lparr>Marshal = (\<lambda>xs. if xs = [demo_record] then Inr demo_bytes
                        else Inl (UpstreamError ''json'')),
      Unmarshal = (\<lambda>bs. if bs = demo_bytes then Inr [demo_record]
                          else Inl (UpstreamError ''json''))\<rparr>"

definition demo_source :: FetchFunc where
  "demo_source = (\<lambda>u. ([demo_record], None))"

definition empty_source :: FetchFunc where
  "empty_source = (\<lambda>u. ([], None))"

definition failing_source :: FetchFunc where
  "failing_source = (\<lambda>u. ([], Some (UpstreamError ''upstream 502'')))"

text \<open>An environment at clock \<open>t\<close> in which every tier operation succeeds.\<close>

definition healthy :: "int \<Rightarrow> env" where
  "healthy t = \<lparr>now = t, l1_set_ok = True, l1_del_ok = True, l2_get_ok = True,
                 l2_set_ok = True, l2_del_ok = True\<rparr>"

text \<open>The same with every L1 write rejected.\<close>

definition l1_rejecting :: "int \<Rightarrow> env" where
  "l1_rejecting t = (healthy t)\<lparr>l1_set_ok := False\<rparr>"

text \<open>
  Managers as \<open>NewManager\<close> builds them: from the default configuration (L1 only, five
  minutes of default expiry), and with Redis switched on as well.
\<close>

definition l1_config :: bigcache_Config where
  "l1_config =
     \<lparr>Shards = 1024, LifeWindow = 300000000000, CleanWindow = 600000000000,
      MaxEntriesInWindow = 100000, MaxEntrySize = 500, HardMaxCacheSize = 256,
      Verbose = False\<rparr>"

definition l1_only_manager :: Manager where
  "l1_only_manager =
     \<lparr>l1Cache = bigcache_New l1_config, l2Cache = Map.empty, cfg = default_Config,
      l1Enabled = True, l2Enabled = False\<rparr>"

definition two_tier_manager :: "Redis \<Rightarrow> Manager" where
  "two_tier_manager server =
     \<lparr>l1Cache = bigcache_New l1_config, l2Cache = server,
      cfg = default_Config\<lparr>Redis_Enabled := True\<rparr>,
      l1Enabled = True, l2Enabled = True\<rparr>"

definition demo_server :: Redis where
  "demo_server =
     [''demo_hot'' \<mapsto> \<lparr>re_value = demo_bytes, re_stored = 0, re_ttl = Some 3600000000000\<rparr>]"

definition l2_only_manager :: "Redis \<Rightarrow> Manager" where
  "l2_only_manager server =
     \<lparr>l1Cache = bigcache_New
        \<lparr>Shards = 0, LifeWindow = 0, CleanWindow = 0, MaxEntriesInWindow = 0,
         MaxEntrySize = 0, HardMaxCacheSize = 0, Verbose = False\<rparr>,
      l2Cache = server,
      cfg = default_Config\<lparr>Cache_Enabled := False, Redis_Enabled := True\<rparr>,
      l1Enabled = False, l2Enabled = True\<rparr>"

text \<open>
  The fetcher of the default configuration, and the same after a first
  \<open>GetData\<close> at clock 0 for \<open>demo_hot\<close> with a time to live of one hour.
\<close>

definition demo_fetcher :: Fetcher where
  "demo_fetcher = NewFetcher l1_only_manager"

definition one_hour :: Duration where
  "one_hour = 3600000000000"

definition after_first_call :: Fetcher where
  "after_first_call =
     fst (snd (GetData demo_fetcher demo_json (healthy 0) (healthy 0)
                 ''demo_hot'' ''demo'' ''hot'' one_hour demo_source))"

text \<open>
  A two-tier manager whose Redis already holds \<open>demo_hot\<close>, after one \<open>Get\<close> at clock
  1000 has promoted the entry into L1.
\<close>

definition promoted_manager :: Manager where
  "promoted_manager = fst (snd (Get (two_tier_manager demo_server) (healthy 1000) ''demo_hot''))"

text \<open>
  A two-tier manager as \<open>NewManager\<close> builds it from a configuration whose
  \<open>default_expire\<close> is zero.
\<close>

definition zero_default_Config :: Config where
  "zero_default_Config = default_Config\<lparr>Cache_DefaultExpire := 0, Redis_Enabled := True\<rparr>"

definition zero_default_manager :: "Redis \<Rightarrow> Manager" where
  "zero_default_manager server =
     \<lparr>l1Cache = bigcache_New (l1_config\<lparr>LifeWindow := 0\<rparr>), l2Cache = server,
      cfg = zero_default_Config, l1Enabled = True, l2Enabled = True\<rparr>"

text \<open>
  Whether an enabled tier holds an entry for a key, live or not, with payload \<open>v\<close>, and
  whether a payload deserializes.
\<close>

definition tier_holds :: "Manager \<Rightarrow> string \<Rightarrow> bytes \<Rightarrow> bool" where
  "tier_holds m key v =
     ((l1Enabled m \<and>
       (case bc_entries (l1Cache m) key of None \<Rightarrow> False | Some (w, stored) \<Rightarrow> w = v)) \<or>
      (l2Enabled m \<and>
       (case l2Cache m key of None \<Rightarrow> False | Some entry \<Rightarrow> re_value entry = v)))"

definition deserializable :: "json_codec \<Rightarrow> bytes \<Rightarrow> bool" where
  "deserializable json v = (case Unmarshal json v of Inr hotDataList \<Rightarrow> True | Inl uerr \<Rightarrow> False)"

text \<open>
  A Redis server whose entry for \<open>demo_hot\<close> is the single byte \<open>{\<close>, which is not JSON,
  and the fetchers of the two-tier managers over that server and over \<open>demo_server\<close>.
\<close>

definition corrupt_server :: Redis where
  "corrupt_server = [''demo_hot'' \<mapsto> \<lparr>re_value = [123], re_stored = 0, re_ttl = None\<rparr>]"

definition corrupt_fetcher :: Fetcher where
  "corrupt_fetcher = NewFetcher (two_tier_manager corrupt_server)"

definition two_tier_fetcher :: Fetcher where
  "two_tier_fetcher = NewFetcher (two_tier_manager demo_server)"

text \<open>An environment at clock \<open>t\<close> in which Redis cannot be read.\<close>

definition l2_unreadable :: "int \<Rightarrow> env" where
  "l2_unreadable t = (healthy t)\<lparr>l2_get_ok := False\<rparr>"

text \<open>
  A record whose \<open>Hot\<close> is the integer \<open>2^53 + 1\<close>, and \<open>encoding/json\<close> on it:
  \<open>json.Marshal\<close> prints the integer exactly, \<open>json.Unmarshal\<close> reads a JSON number into
  an \<open>interface{}\<close> field as a \<open>float64\<close>, which makes it \<open>2^53\<close>, and that value is
  printed back as \<open>9007199254740992\<close>.
\<close>

definition big_record :: HotData where
  "big_record = demo_record\<lparr>Hot := DNumber 9007199254740993\<rparr>"

definition big_record_read :: HotData where
  "big_record_read = demo_record\<lparr>Hot := DNumber 9007199254740992\<rparr>"

definition big_bytes :: bytes where
  "big_bytes =
     [91, 123, 34, 105, 100, 34, 58, 34, 49, 34, 44, 34, 116, 105, 116, 108, 101, 34,
      58, 34, 65, 34, 44, 34, 104, 111, 116, 34, 58, 57, 48, 48, 55, 49, 57, 57, 50, 53,
      52, 55, 52, 48, 57, 57, 51, 44, 34, 117, 114, 108, 34, 58, 34, 104, 116, 116, 112,
      58, 47, 47, 120, 47, 49, 34, 125, 93]"

definition big_bytes_read :: bytes where
  "big_bytes_read =
     [91, 123, 34, 105, 100, 34, 58, 34, 49, 34, 44, 34, 116, 105, 116, 108, 101, 34,
      58, 34, 65, 34, 44, 34, 104, 111, 116, 34, 58, 57, 48, 48, 55, 49, 57, 57, 50, 53,
      52, 55, 52, 48, 57, 57, 50, 44, 34, 117, 114, 108, 34, 58, 34, 104, 116, 116, 112,
      58, 47, 47, 120, 47, 49, 34, 125, 93]"

definition number_json :: json_codec where
  "number_json =
     \<lparr>Marshal = (\<lambda>xs. if xs = [big_record] then Inr big_bytes
                        else if xs = [big_record_read] then Inr big_bytes_read
                        else Inl (UpstreamError ''json'')),
      Unmarshal = (\<lambda>bs. if bs = big_bytes \<or> bs = big_bytes_read then Inr [big_record_read]
                          else Inl (UpstreamError ''json''))\<rparr>"

definition big_source :: FetchFunc where
  "big_source = (\<lambda>u. ([big_record], None))"

definition after_big_call :: Fetcher where
  "after_big_call =
     fst (snd (GetData demo_fetcher number_json (healthy 0) (healthy 0)
                 ''demo_hot'' ''demo'' ''hot'' one_hour big_source))"

section \<open>Warmup (warmUpCacheAsync of the main package, and Client.Get)\<close>

text \<open>
  \<open>Client.Get(url, headers)\<close> of internal/http/client.go takes no context: the request is
  built by \<open>c.client.R()\<close> and sent by \<open>req.Get(url)\<close>. One call is modelled by its
  outcome and by how long it runs, in nanoseconds; the duration is decided by the server
  and by the client-wide settings of \<open>NewClient\<close> (a timeout of 15 seconds for each
  attempt, up to 3 retries), never by an argument of the call.
\<close>

type_synonym timed_client = "string \<Rightarrow> headers \<Rightarrow> (bytes \<times> error option) \<times> int"

text \<open>\<open>context.WithTimeout(context.Background(), d)\<close>: a context that is done after \<open>d\<close>.\<close>

record deadline_context =
  ctx_timeout :: Duration

definition WithTimeout :: "Duration \<Rightarrow> deadline_context" where
  "WithTimeout d = \<lparr>ctx_timeout = d\<rparr>"

text \<open>
  What one warmup goroutine does, once it holds the semaphore: the context it created,
  whether it sent a request, whether the warmup succeeded, and how long the request ran.
\<close>

record warmup_report =
  platform :: string
  task_ctx :: deadline_context
  fetched :: bool
  warmed :: bool
  fetch_duration :: int

definition hotPlatforms :: "string list" where
  "hotPlatforms =
     [''/weibo'', ''/toutiao'', ''/baidu'', ''/bilibili'', ''/douyin'', ''/github'', ''/csdn'',
      ''/v2ex'', ''/hackernews'', ''/zhihu'']"

text \<open>
  The body of the goroutine. \<open>ctx\<close> is created and, as in the source, handed to nothing:
  its only later use is the blank assignment \<open>_ = ctx\<close>. A nil client ends the task
  before any request.
\<close>

definition warmup_task :: "timed_client option \<Rightarrow> string \<Rightarrow> warmup_report" where
  "warmup_task httpClient p =
     (let ctx = WithTimeout 15000000000 in
      case httpClient of
        None \<Rightarrow>
          \<lparr>platform = p, task_ctx = ctx, fetched = False, warmed = False, fetch_duration = 0\<rparr>
      | Some client \<Rightarrow>
          let url = ''http://127.0.0.1:6688'' @ p in
          case client url [''User-Agent'' \<mapsto> ''DailyHotApi/CacheWarmer''] of
            ((body, err), d) \<Rightarrow>
              \<lparr>platform = p, task_ctx = ctx, fetched = True, warmed = (err = None),
               fetch_duration = d\<rparr>)"

text \<open>The reports of all tasks; the order in which the goroutines run is not modelled.\<close>

definition warmUpCacheAsync :: "timed_client option \<Rightarrow> warmup_report list" where
  "warmUpCacheAsync httpClient = map (warmup_task httpClient) hotPlatforms"

text \<open>
  A local endpoint that never answers: each of the four attempts of the client runs into
  its 15 second timeout, with the waits of 1, 2 and 3 seconds between them.
\<close>

definition hanging_client :: timed_client where
  "hanging_client = (\<lambda>url hdrs. (([], Some (UpstreamError ''timeout'')), 66000000000))"


section \<open>Properties of the retry executor\<close>

lemma sint_of_nat64: "k < 2 ^ 63 \<Longrightarrow> sint (word_of_nat k :: 64 word) = int k"
proof -
  assume h: "k < 2 ^ 63"
  have "sint (word_of_nat k :: 64 word) = sint (word_of_int (int k) :: 64 word)" by simp
  also have "\<dots> = signed_take_bit 63 (int k)" by (simp only: sint_sbintrunc') simp
  also have "\<dots> = int k"
    by (rule signed_take_bit_int_eq_self) (use h in auto)
  finally show ?thesis .
qed

lemma sint_lt_2p63: "sint (m :: 64 word) < 2 ^ 63"
  using sint_range_size [of m] by (simp add: word_size)

lemma sint_ge_m2p63: "- (2 ^ 63) \<le> sint (m :: 64 word)"
  using sint_range_size [of m] by (simp add: word_size)

lemma of_nat_sless: "int k < sint (m :: 64 word) \<Longrightarrow> (word_of_nat k <s m) = True"
proof -
  assume h: "int k < sint m"
  have "int k < 2 ^ 63" using h sint_lt_2p63 [of m] by linarith
  then have "k < 2 ^ 63" by (metis of_nat_less_iff of_nat_numeral of_nat_power)
  then show ?thesis using h by (simp add: word_sless_alt sint_of_nat64)
qed

lemma sint_minus1: "0 < sint (m :: 64 word) \<Longrightarrow> sint (m - 1) = sint m - 1"
proof -
  assume h: "0 < sint m"
  have "sint (m - 1) = signed_take_bit 63 (sint m - 1)"
    by (simp add: sint_word_ariths)
  also have "\<dots> = sint m - 1"
    by (rule signed_take_bit_int_eq_self) (use h sint_lt_2p63 [of m] in auto)
  finally show ?thesis .
qed

lemma of_nat_sless_pred:
  "int k < sint (m :: 64 word) \<Longrightarrow> (word_of_nat k <s m - 1) = (int k + 1 < sint m)"
proof -
  assume h: "int k < sint m"
  have "int k < 2 ^ 63" using h sint_lt_2p63 [of m] by linarith
  then have "k < 2 ^ 63" by (metis of_nat_less_iff of_nat_numeral of_nat_power)
  moreover have "0 < sint m" using h by linarith
  ultimately show ?thesis by (auto simp add: word_sless_alt sint_of_nat64 sint_minus1)
qed

lemma retry_loop_skip:
  assumes "k \<le> j" and "int j < sint (MaxRetries config)"
    and "\<forall>i. k \<le> i \<and> i < j \<longrightarrow> \<not> attempt_ok (client url hdrs i)"
    and "\<forall>i. k \<le> i \<and> i < j \<longrightarrow> ctx i = None"
    and "calls tr = k" and "length (waits tr) = k"
  shows "retry_loop ctx client url hdrs config (word_of_nat k) lastErr tr =
         retry_loop ctx client url hdrs config (word_of_nat j)
           (if k = j then lastErr else snd (client url hdrs (j - 1)))
           (tr\<lparr>calls := j,
               waits := waits tr @ map (\<lambda>i. Slept (delayDuration config (word_of_nat i))) [k..<j]\<rparr>)"
  using assms
proof (induction "j - k" arbitrary: k lastErr tr)
  case 0
  have e: "tr\<lparr>calls := k\<rparr> = tr" using 0 by (cases tr) simp
  have jk: "j = k" using 0 by linarith
  show ?case unfolding jk e by simp
next
  case (Suc d)
  then have kj: "k < j" by linarith
  have lt: "int k < sint (MaxRetries config)" using kj Suc.prems(2) by linarith
  have lt1: "int k + 1 < sint (MaxRetries config)" using kj Suc.prems(2) by linarith
  have f: "\<not> attempt_ok (client url hdrs k)" using Suc.prems(3) kj by simp
  have c: "ctx k = None" using Suc.prems(4) kj by simp
  obtain body err where be: "client url hdrs k = (body, err)" by (cases "client url hdrs k")
  have nf: "\<not> (err = None \<and> 0 < length body)" using f be by (simp add: attempt_ok_def)
  let ?tr' = "tr\<lparr>calls := Suc k, waits := waits tr @ [Slept (delayDuration config (word_of_nat k))]\<rparr>"
  have one: "retry_loop ctx client url hdrs config (word_of_nat k) lastErr tr =
             retry_loop ctx client url hdrs config (word_of_nat (Suc k)) err ?tr'"
    using nf be c Suc.prems(5,6) lt1
    by (subst retry_loop.simps)
       (auto simp add: of_nat_sless [OF lt] of_nat_sless_pred [OF lt] Let_def add.commute)
  have ih: "retry_loop ctx client url hdrs config (word_of_nat (Suc k)) err ?tr' =
         retry_loop ctx client url hdrs config (word_of_nat j)
           (if Suc k = j then err else snd (client url hdrs (j - 1)))
           (?tr'\<lparr>calls := j,
               waits := waits ?tr' @ map (\<lambda>i. Slept (delayDuration config (word_of_nat i))) [Suc k..<j]\<rparr>)"
    apply (rule Suc.hyps(1))
    using Suc.hyps(2) Suc.prems kj by auto
  have err_eq: "(if Suc k = j then err else snd (client url hdrs (j - 1))) =
                (if k = j then lastErr else snd (client url hdrs (j - 1)))"
    using kj be by auto
  have l: "[k..<j] = k # [Suc k..<j]" using kj by (simp add: upt_conv_Cons)
  show ?case unfolding one ih err_eq l by simp
qed

lemma retry_loop_from_start:
  assumes "int j < sint (MaxRetries config)"
    and "\<forall>i<j. \<not> attempt_ok (client url hdrs i)"
    and "\<forall>i<j. ctx i = None"
  shows "FetchWithRetry ctx client url hdrs config =
         retry_loop ctx client url hdrs config (word_of_nat j)
           (if j = 0 then None else snd (client url hdrs (j - 1)))
           \<lparr>calls = j, waits = map (\<lambda>i. Slept (delayDuration config (word_of_nat i))) [0..<j]\<rparr>"
proof -
  have "retry_loop ctx client url hdrs config (word_of_nat 0) None \<lparr>calls = 0, waits = []\<rparr> =
        retry_loop ctx client url hdrs config (word_of_nat j)
           (if 0 = j then None else snd (client url hdrs (j - 1)))
           (\<lparr>calls = 0, waits = []\<rparr>\<lparr>calls := j,
               waits := waits \<lparr>calls = 0, waits = []\<rparr> @
                 map (\<lambda>i. Slept (delayDuration config (word_of_nat i))) [0..<j]\<rparr>)"
    by (rule retry_loop_skip) (use assms in auto)
  then show ?thesis by (simp add: FetchWithRetry_def eq_commute [of 0 j])
qed

lemma delayDuration_min:
  assumes lo: "- (2 ^ 63) \<le> (int i + 1) * sint (InitialDelay config)"
    and hi: "(int i + 1) * sint (InitialDelay config) < 2 ^ 63"
    and ir: "int i + 1 < 2 ^ 63"
  shows "sint (delayDuration config (word_of_nat i)) =
         min ((int i + 1) * sint (InitialDelay config)) (sint (MaxDelay config))"
proof -
  have "Suc i < 2 ^ 63" using ir by (metis of_nat_Suc of_nat_less_iff of_nat_numeral of_nat_power add.commute)
  then have a: "sint (word_of_nat i + 1 :: 64 word) = int i + 1"
    using sint_of_nat64 [of "Suc i"] by (simp add: add.commute)
  have "sint ((word_of_nat i + 1) * InitialDelay config) =
        signed_take_bit 63 (sint (word_of_nat i + 1 :: 64 word) * sint (InitialDelay config))"
    by (simp add: sint_word_ariths)
  also have "\<dots> = (int i + 1) * sint (InitialDelay config)"
    unfolding a by (rule signed_take_bit_int_eq_self) (use lo hi in auto)
  finally have d: "sint ((word_of_nat i + 1) * InitialDelay config) =
                   (int i + 1) * sint (InitialDelay config)" .
  show ?thesis
    using d by (auto simp add: delayDuration_def Let_def word_sless_alt min_def)
qed

lemma retry_success_at:
  assumes lt: "int j < sint (MaxRetries config)"
    and f: "\<forall>i<j. \<not> attempt_ok (client url hdrs i)"
    and ok: "attempt_ok (client url hdrs j)"
    and c: "\<forall>i<j. ctx i = None"
  shows "FetchWithRetry ctx client url hdrs config =
          ((Some (fst (client url hdrs j)), None),
           \<lparr>calls = Suc j,
            waits = map (\<lambda>i. Slept (delayDuration config (word_of_nat i))) [0..<j]\<rparr>)"
proof -
  obtain body err where be: "client url hdrs j = (body, err)"
    by (cases "client url hdrs j")
  have ok': "err = None \<and> 0 < length body" using ok be by (simp add: attempt_ok_def)
  have "FetchWithRetry ctx client url hdrs config =
        retry_loop ctx client url hdrs config (word_of_nat j)
           (if j = 0 then None else snd (client url hdrs (j - 1)))
           \<lparr>calls = j,
            waits = map (\<lambda>i. Slept (delayDuration config (word_of_nat i))) [0..<j]\<rparr>"
    by (rule retry_loop_from_start) (use lt f c in auto)
  also have "\<dots> = ((Some body, None),
           \<lparr>calls = Suc j,
            waits = map (\<lambda>i. Slept (delayDuration config (word_of_nat i))) [0..<j]\<rparr>)"
    using ok' be
    by (subst retry_loop.simps) (simp add: of_nat_sless [OF lt] Let_def)
  finally show ?thesis using be by simp
qed

lemma retry_exhausted_at:
  assumes last: "int j + 1 = sint (MaxRetries config)"
    and f: "\<forall>i\<le>j. \<not> attempt_ok (client url hdrs i)"
    and c: "\<forall>i<j. ctx i = None"
  shows "FetchWithRetry ctx client url hdrs config =
          ((None, Some (RequestFailed (MaxRetries config) (snd (client url hdrs j)))),
           \<lparr>calls = Suc j,
            waits = map (\<lambda>i. Slept (delayDuration config (word_of_nat i))) [0..<j]\<rparr>)"
proof -
  have lt: "int j < sint (MaxRetries config)" using last by linarith
  obtain body err where be: "client url hdrs j = (body, err)"
    by (cases "client url hdrs j")
  have "\<not> attempt_ok (client url hdrs j)" using f by simp
  then have nok: "\<not> (err = None \<and> 0 < length body)" using be by (simp add: attempt_ok_def)
  have S63: "Suc j < 2 ^ 63"
  proof -
    have "int (Suc j) < 2 ^ 63" using last sint_lt_2p63 [of "MaxRetries config"] by simp
    then show ?thesis by (metis of_nat_less_iff of_nat_numeral of_nat_power)
  qed
  have nolast: "\<not> (word_of_nat j <s MaxRetries config - 1)"
    using last by (simp add: of_nat_sless_pred [OF lt])
  have nxt: "(word_of_nat j + 1 :: 64 word) = word_of_nat (Suc j)"
    by (simp add: add.commute)
  have stop: "\<not> (word_of_nat (Suc j) <s MaxRetries config)"
    using last sint_of_nat64 [OF S63] by (simp add: word_sless_alt)
  have "FetchWithRetry ctx client url hdrs config =
        retry_loop ctx client url hdrs config (word_of_nat j)
           (if j = 0 then None else snd (client url hdrs (j - 1)))
           \<lparr>calls = j,
            waits = map (\<lambda>i. Slept (delayDuration config (word_of_nat i))) [0..<j]\<rparr>"
    by (rule retry_loop_from_start) (use lt f c in auto)
  also have "\<dots> = retry_loop ctx client url hdrs config (word_of_nat (Suc j)) err
           \<lparr>calls = Suc j,
            waits = map (\<lambda>i. Slept (delayDuration config (word_of_nat i))) [0..<j]\<rparr>"
    using nok be nolast unfolding nxt [symmetric]
    by (subst retry_loop.simps) (auto simp add: of_nat_sless [OF lt] Let_def)
  also have "\<dots> = ((None, Some (RequestFailed (MaxRetries config) err)),
           \<lparr>calls = Suc j,
            waits = map (\<lambda>i. Slept (delayDuration config (word_of_nat i))) [0..<j]\<rparr>)"
    using stop by (subst retry_loop.simps) simp
  finally show ?thesis using be by simp
qed

lemma retry_cancelled_at:
  assumes lt1: "int j + 1 < sint (MaxRetries config)"
    and f: "\<forall>i\<le>j. \<not> attempt_ok (client url hdrs i)"
    and c: "\<forall>i<j. ctx i = None"
    and d: "ctx j = Some e"
  shows "FetchWithRetry ctx client url hdrs config =
         ((None, Some (RequestCancelled e)),
          \<lparr>calls = Suc j,
           waits = map (\<lambda>i. Slept (delayDuration config (word_of_nat i))) [0..<j] @
                   [Interrupted (delayDuration config (word_of_nat j))]\<rparr>)"
proof -
  have lt: "int j < sint (MaxRetries config)" using lt1 by linarith
  obtain body err where be: "client url hdrs j = (body, err)"
    by (cases "client url hdrs j")
  have "\<not> attempt_ok (client url hdrs j)" using f by simp
  then have nok: "\<not> (err = None \<and> 0 < length body)" using be by (simp add: attempt_ok_def)
  have "FetchWithRetry ctx client url hdrs config =
        retry_loop ctx client url hdrs config (word_of_nat j)
           (if j = 0 then None else snd (client url hdrs (j - 1)))
           \<lparr>calls = j,
            waits = map (\<lambda>i. Slept (delayDuration config (word_of_nat i))) [0..<j]\<rparr>"
    by (rule retry_loop_from_start) (use lt f c in auto)
  also have "\<dots> = ((None, Some (RequestCancelled e)),
          \<lparr>calls = Suc j,
           waits = map (\<lambda>i. Slept (delayDuration config (word_of_nat i))) [0..<j] @
                   [Interrupted (delayDuration config (word_of_nat j))]\<rparr>)"
    using nok be d lt1
    by (subst retry_loop.simps)
       (auto simp add: of_nat_sless [OF lt] of_nat_sless_pred [OF lt] Let_def)
  finally show ?thesis .
qed

lemma upt2: "[0..<2] = [0, Suc 0]"
  by (simp add: upt_rec)

text \<open>
  What the executor does when no wait is interrupted. Write \<open>client url hdrs i\<close> for the
  outcome of the \<open>i\<close>-th invocation (from 0).
  \<^item> If the first \<open>N - 1\<close> invocations fail (an error, or an empty body) and the
    \<open>N\<close>-th succeeds with a non-empty body, \<open>N \<le> MaxRetries\<close>, then \<open>FetchWithRetry\<close>
    invokes the operation exactly \<open>N\<close> times and returns that body with a nil error,
    having slept \<open>delayDuration config i\<close> after each failed attempt \<open>i < N - 1\<close>.
  \<^item> If all \<open>M = MaxRetries\<close> invocations fail, it returns nil and the single error
    \<open>RequestFailed MaxRetries lastErr\<close>, where \<open>lastErr\<close> is the \<open>err\<close> of the last
    invocation, whatever the earlier ones returned.
  \<^item> The delay after attempt \<open>i\<close> (attempt index \<open>i + 1\<close> counted from 1) is
    \<open>min ((i + 1) * InitialDelay) MaxDelay\<close>, the product being the \<open>int64\<close> product of
    the source: it is the integer product whenever that fits in 64 bits.
\<close>

lemma retry_attempts_and_delays:
  "(0 < N \<and> int N \<le> sint (MaxRetries config) \<and>
    (\<forall>i<N - 1. \<not> attempt_ok (client url hdrs i)) \<and> attempt_ok (client url hdrs (N - 1)) \<and>
    (\<forall>i<N - 1. ctx i = None)
    \<longrightarrow> FetchWithRetry ctx client url hdrs config =
          ((Some (fst (client url hdrs (N - 1))), None),
           \<lparr>calls = N,
            waits = map (\<lambda>i. Slept (delayDuration config (word_of_nat i))) [0..<N - 1]\<rparr>))
   \<and> (0 < M \<and> int M = sint (MaxRetries config) \<and>
      (\<forall>i<M. \<not> attempt_ok (client url hdrs i)) \<and> (\<forall>i<M - 1. ctx i = None)
    \<longrightarrow> FetchWithRetry ctx client url hdrs config =
          ((None, Some (RequestFailed (MaxRetries config) (snd (client url hdrs (M - 1))))),
           \<lparr>calls = M,
            waits = map (\<lambda>i. Slept (delayDuration config (word_of_nat i))) [0..<M - 1]\<rparr>))
   \<and> (- (2 ^ 63) \<le> (int i + 1) * sint (InitialDelay config) \<and>
      (int i + 1) * sint (InitialDelay config) < 2 ^ 63 \<and> int i + 1 < 2 ^ 63
    \<longrightarrow> sint (delayDuration config (word_of_nat i)) =
          min ((int i + 1) * sint (InitialDelay config)) (sint (MaxDelay config)))"
proof (intro conjI impI)
  assume h: "0 < N \<and> int N \<le> sint (MaxRetries config) \<and>
    (\<forall>i<N - 1. \<not> attempt_ok (client url hdrs i)) \<and> attempt_ok (client url hdrs (N - 1)) \<and>
    (\<forall>i<N - 1. ctx i = None)"
  then obtain j where N: "N = Suc j" by (cases N) auto
  have "FetchWithRetry ctx client url hdrs config =
          ((Some (fst (client url hdrs j)), None),
           \<lparr>calls = Suc j,
            waits = map (\<lambda>i. Slept (delayDuration config (word_of_nat i))) [0..<j]\<rparr>)"
    by (rule retry_success_at) (use h N in auto)
  then show "FetchWithRetry ctx client url hdrs config =
          ((Some (fst (client url hdrs (N - 1))), None),
           \<lparr>calls = N,
            waits = map (\<lambda>i. Slept (delayDuration config (word_of_nat i))) [0..<N - 1]\<rparr>)"
    using N by simp
next
  assume h: "0 < M \<and> int M = sint (MaxRetries config) \<and>
      (\<forall>i<M. \<not> attempt_ok (client url hdrs i)) \<and> (\<forall>i<M - 1. ctx i = None)"
  then obtain j where M: "M = Suc j" by (cases M) auto
  have "FetchWithRetry ctx client url hdrs config =
          ((None, Some (RequestFailed (MaxRetries config) (snd (client url hdrs j)))),
           \<lparr>calls = Suc j,
            waits = map (\<lambda>i. Slept (delayDuration config (word_of_nat i))) [0..<j]\<rparr>)"
    by (rule retry_exhausted_at) (use h M in \<open>auto simp add: less_Suc_eq_le\<close>)
  then show "FetchWithRetry ctx client url hdrs config =
          ((None, Some (RequestFailed (MaxRetries config) (snd (client url hdrs (M - 1))))),
           \<lparr>calls = M,
            waits = map (\<lambda>i. Slept (delayDuration config (word_of_nat i))) [0..<M - 1]\<rparr>)"
    using M by simp
next
  assume "- (2 ^ 63) \<le> (int i + 1) * sint (InitialDelay config) \<and>
      (int i + 1) * sint (InitialDelay config) < 2 ^ 63 \<and> int i + 1 < 2 ^ 63"
  then show "sint (delayDuration config (word_of_nat i)) =
          min ((int i + 1) * sint (InitialDelay config)) (sint (MaxDelay config))"
    by (intro delayDuration_min) auto
qed

text \<open>
  Claim C6 (retry executor contract) does not hold of the code when all attempts fail and
  the last one fails by an empty body. Line 70 assigns \<open>lastErr = err\<close> after every failed
  attempt, also when \<open>err\<close> is nil because the body was empty. With three attempts that
  return an error, an error and then an empty body without error, the aggregated error
  names the three attempts and wraps nil: the error of the second attempt, the last
  underlying error, is lost.
\<close>

theorem FetchWithRetry_exhausted_wraps_nil:
  "dead_client ''u'' Map.empty 0 = ([], Some (UpstreamError ''connection reset'')) \<and>
   dead_client ''u'' Map.empty 1 = ([], Some (UpstreamError ''connection reset'')) \<and>
   dead_client ''u'' Map.empty 2 = ([], None) \<and>
   MaxRetries DefaultRetryConfig = 3 \<and>
   FetchWithRetry never_done dead_client ''u'' Map.empty DefaultRetryConfig =
     ((None, Some (RequestFailed 3 None)),
      \<lparr>calls = 3, waits = [Slept 1000000000, Slept 2000000000]\<rparr>)"
proof -
  have c: "dead_client ''u'' Map.empty 0 = ([], Some (UpstreamError ''connection reset'')) \<and>
   dead_client ''u'' Map.empty 1 = ([], Some (UpstreamError ''connection reset'')) \<and>
   dead_client ''u'' Map.empty 2 = ([], None) \<and> MaxRetries DefaultRetryConfig = 3"
    by (simp add: dead_client_def DefaultRetryConfig_def)
  have d0: "delayDuration DefaultRetryConfig 0 = 1000000000"
    by (simp add: delayDuration_def DefaultRetryConfig_def word_sless_alt)
  have d1: "delayDuration DefaultRetryConfig 1 = 2000000000"
    by (simp add: delayDuration_def DefaultRetryConfig_def word_sless_alt)
  have f: "\<forall>i\<le>2. \<not> attempt_ok (dead_client ''u'' Map.empty i)"
    by (simp add: dead_client_def attempt_ok_def)
  have n: "\<forall>i<2. never_done i = None"
    by (simp add: never_done_def)
  have l: "int 2 + 1 = sint (MaxRetries DefaultRetryConfig)"
    by (simp add: DefaultRetryConfig_def)
  have "FetchWithRetry never_done dead_client ''u'' Map.empty DefaultRetryConfig =
          ((None, Some (RequestFailed (MaxRetries DefaultRetryConfig)
                          (snd (dead_client ''u'' Map.empty 2)))),
           \<lparr>calls = Suc 2,
            waits = map (\<lambda>i. Slept (delayDuration DefaultRetryConfig (word_of_nat i))) [0..<2]\<rparr>)"
    using l f n
    by (rule retry_exhausted_at [where j = 2 and config = DefaultRetryConfig
          and client = dead_client and url = "''u''" and hdrs = Map.empty and ctx = never_done])
  then show ?thesis using c d0 d1 by (simp add: upt2)
qed

text \<open>
  Claim C7 (cancellation during backoff). If attempts \<open>0..j\<close> fail, the waits before
  attempt \<open>j\<close> elapse, a wait follows attempt \<open>j\<close> (\<open>j + 1 < MaxRetries\<close>) and the
  context is done during that wait with \<open>ctx.Err() = e\<close>, then \<open>FetchWithRetry\<close> returns
  nil and \<open>RequestCancelled e\<close>, which wraps the context's error and not an error of the
  operation; the wait is recorded as interrupted and the operation has been invoked
  \<open>j + 1\<close> times, so no invocation follows the cancellation.
\<close>

theorem FetchWithRetry_cancelled:
  "int j + 1 < sint (MaxRetries config) \<and> (\<forall>i\<le>j. \<not> attempt_ok (client url hdrs i)) \<and>
   (\<forall>i<j. ctx i = None) \<and> ctx j = Some e
   \<longrightarrow> FetchWithRetry ctx client url hdrs config =
         ((None, Some (RequestCancelled e)),
          \<lparr>calls = Suc j,
           waits = map (\<lambda>i. Slept (delayDuration config (word_of_nat i))) [0..<j] @
                   [Interrupted (delayDuration config (word_of_nat j))]\<rparr>)"
  using retry_cancelled_at [of j config client url hdrs ctx e] by blast

theorem FetchWithRetry_cancelled_witness:
  "(int 1 + 1 < sint (MaxRetries DefaultRetryConfig) \<and>
    \<not> attempt_ok (dead_client ''u'' Map.empty 0) \<and>
    \<not> attempt_ok (dead_client ''u'' Map.empty 1) \<and>
    cancelled_ctx 0 = None \<and> cancelled_ctx 1 = Some ContextCanceled) \<and>
   FetchWithRetry cancelled_ctx dead_client ''u'' Map.empty DefaultRetryConfig =
     ((None, Some (RequestCancelled ContextCanceled)),
      \<lparr>calls = 2, waits = [Slept 1000000000, Interrupted 2000000000]\<rparr>)"
proof -
  have h: "int 1 + 1 < sint (MaxRetries DefaultRetryConfig) \<and>
    (\<forall>i\<le>1. \<not> attempt_ok (dead_client ''u'' Map.empty i)) \<and>
    (\<forall>i<1. cancelled_ctx i = None) \<and> cancelled_ctx 1 = Some ContextCanceled"
    by (simp add: DefaultRetryConfig_def dead_client_def attempt_ok_def cancelled_ctx_def)
  have d0: "delayDuration DefaultRetryConfig 0 = 1000000000"
    by (simp add: delayDuration_def DefaultRetryConfig_def word_sless_alt)
  have d1: "delayDuration DefaultRetryConfig 1 = 2000000000"
    by (simp add: delayDuration_def DefaultRetryConfig_def word_sless_alt)
  show ?thesis
    using FetchWithRetry_cancelled [of 1 DefaultRetryConfig dead_client "''u''" Map.empty
        cancelled_ctx ContextCanceled] h d0 d1
    by (simp add: numeral_2_eq_2 dead_client_def attempt_ok_def cancelled_ctx_def)
qed

text \<open>
  Claim C10 (degenerate retry configuration). With \<open>MaxRetries \<le> 0\<close> the loop body is
  never entered: \<open>FetchWithRetry\<close> returns a nil byte slice and the error
  \<open>RequestFailed MaxRetries nil\<close> without invoking the operation or waiting; in
  particular it never returns a success.
\<close>

theorem FetchWithRetry_no_attempts:
  "sint (MaxRetries config) \<le> 0 \<Longrightarrow>
   FetchWithRetry ctx client url hdrs config =
     ((None, Some (RequestFailed (MaxRetries config) None)), \<lparr>calls = 0, waits = []\<rparr>)"
  by (simp add: FetchWithRetry_def retry_loop.simps word_sless_alt)

theorem FetchWithRetry_no_attempts_witness:
  "sint (MaxRetries \<lparr>MaxRetries = - 1, InitialDelay = 1000000000, MaxDelay = 5000000000\<rparr>) \<le> 0 \<and>
   FetchWithRetry never_done flaky_client ''u'' Map.empty
      \<lparr>MaxRetries = - 1, InitialDelay = 1000000000, MaxDelay = 5000000000\<rparr> =
     ((None, Some (RequestFailed (- 1) None)), \<lparr>calls = 0, waits = []\<rparr>)"
  using FetchWithRetry_no_attempts [of "\<lparr>MaxRetries = - 1, InitialDelay = 1000000000, MaxDelay = 5000000000\<rparr>"
      never_done flaky_client "''u''" Map.empty]
  by simp

section \<open>Properties of the object pool\<close>

lemma pool_Get_bounded:
  assumes "list_all P items" and "P new"
  shows "P (fst (pool_Get items new pick)) \<and> list_all P (snd (pool_Get items new pick))"
proof (cases pick)
  case None
  then show ?thesis using assms by (simp add: pool_Get_def)
next
  case (Some i)
  show ?thesis
  proof (cases "i < length items")
    case True
    have "P (items ! i)" using assms(1) True by (simp add: list_all_length)
    moreover have "list_all P (take i items @ drop (Suc i) items)"
      using assms(1) by (auto simp add: list_all_iff dest: in_set_takeD in_set_dropD)
    ultimately show ?thesis using Some True by (simp add: pool_Get_def)
  next
    case False
    then show ?thesis using Some assms by (simp add: pool_Get_def)
  qed
qed

lemma Acquire_buf_ok:
  "pool_bounded p \<Longrightarrow>
     out_ok (GotBuf (fst (AcquireResponseBuffer p pick))) \<and>
     pool_bounded (snd (AcquireResponseBuffer p pick))"
  using pool_Get_bounded [of "\<lambda>b. capacity b \<le> 512 * 1024" "responseBufferPool p"
      "make_slice (256 * 1024)" pick]
  by (auto simp add: AcquireResponseBuffer_def pool_bounded_def reslice0_def make_slice_def
      split: prod.splits)

lemma Acquire_list_ok:
  "pool_bounded p \<Longrightarrow>
     out_ok (GotList (fst (AcquireHotDataList p pick))) \<and>
     pool_bounded (snd (AcquireHotDataList p pick))"
  using pool_Get_bounded [of "\<lambda>l. capacity l \<le> 200" "hotDataListPool p" "make_slice 50" pick]
  by (auto simp add: AcquireHotDataList_def pool_bounded_def reslice0_def make_slice_def
      split: prod.splits)

lemma Release_bounded:
  "pool_bounded p \<Longrightarrow>
     pool_bounded (ReleaseResponseBuffer p buf) \<and> pool_bounded (ReleaseHotDataList p list)"
  by (simp add: ReleaseResponseBuffer_def ReleaseHotDataList_def pool_bounded_def pool_Put_def)

lemma run_pool_ok:
  "pool_bounded p \<Longrightarrow>
     list_all out_ok (fst (run_pool p ops)) \<and> pool_bounded (snd (run_pool p ops))"
proof (induction ops arbitrary: p)
  case Nil
  then show ?case by simp
next
  case (Cons op ops)
  show ?case
  proof (cases op)
    case (AcquireBuf pick)
    obtain buf p' where a: "AcquireResponseBuffer p pick = (buf, p')"
      by (cases "AcquireResponseBuffer p pick")
    have "out_ok (GotBuf buf) \<and> pool_bounded p'"
      using Acquire_buf_ok [OF Cons.prems, of pick] a by simp
    then show ?thesis using Cons.IH [of p'] AcquireBuf a by (auto split: prod.splits)
  next
    case (ReleaseBuf buf)
    then show ?thesis using Cons.IH Release_bounded [OF Cons.prems] by simp
  next
    case (AcquireList pick)
    obtain l p' where a: "AcquireHotDataList p pick = (l, p')"
      by (cases "AcquireHotDataList p pick")
    have "out_ok (GotList l) \<and> pool_bounded p'"
      using Acquire_list_ok [OF Cons.prems, of pick] a by simp
    then show ?thesis using Cons.IH [of p'] AcquireList a by (auto split: prod.splits)
  next
    case (ReleaseList l)
    then show ?thesis using Cons.IH Release_bounded [OF Cons.prems] by simp
  qed
qed

lemma Acquire_len0:
  "elems (fst (AcquireResponseBuffer p pick)) = [] \<and>
   elems (fst (AcquireHotDataList p pick')) = []"
  by (simp add: AcquireResponseBuffer_def AcquireHotDataList_def reslice0_def split: prod.splits)

text \<open>
  Claim C8 (pool acquire and guarded release). Every container returned by
  \<open>AcquireResponseBuffer\<close> or \<open>AcquireHotDataList\<close> has length zero. A release puts the
  container into its pool exactly when its capacity is at most the guard (512 KiB for
  byte buffers, 200 entries for record lists); an oversized container leaves the pool as
  it was. Hence, from a pool without oversized containers (the new pool is one), over any
  sequence of acquires and releases, every acquired container is empty and within the
  guard, and the pool stays without oversized containers.
\<close>

theorem pool_acquire_release_contract:
  "elems (fst (AcquireResponseBuffer p pick)) = [] \<and>
   elems (fst (AcquireHotDataList p pick)) = [] \<and>
   responseBufferPool (ReleaseResponseBuffer p buf) =
     (if capacity buf \<le> 512 * 1024 then buf # responseBufferPool p else responseBufferPool p) \<and>
   hotDataListPool (ReleaseHotDataList p list) =
     (if capacity list \<le> 200 then list # hotDataListPool p else hotDataListPool p) \<and>
   (512 * 1024 < capacity buf \<longrightarrow> ReleaseResponseBuffer p buf = p) \<and>
   (200 < capacity list \<longrightarrow> ReleaseHotDataList p list = p) \<and>
   pool_bounded NewObjectPool \<and>
   (pool_bounded p \<longrightarrow>
      list_all out_ok (fst (run_pool p ops)) \<and> pool_bounded (snd (run_pool p ops)))"
  using Acquire_len0 [of p pick pick] run_pool_ok [of p ops]
  by (simp add: ReleaseResponseBuffer_def ReleaseHotDataList_def pool_Put_def
      NewObjectPool_def pool_bounded_def)

theorem pool_acquire_release_contract_witness:
  "(512 * 1024 < capacity huge_buf \<and> ReleaseResponseBuffer NewObjectPool huge_buf = NewObjectPool) \<and>
   (200 < capacity huge_list \<and> ReleaseHotDataList NewObjectPool huge_list = NewObjectPool) \<and>
   pool_bounded NewObjectPool \<and>
   run_pool NewObjectPool
     [ReleaseBuf huge_buf, ReleaseBuf used_buf, AcquireBuf (Some 0), AcquireBuf (Some 0)] =
     ([GotBuf \<lparr>elems = [], capacity = 524288\<rparr>, GotBuf \<lparr>elems = [], capacity = 262144\<rparr>],
      NewObjectPool) \<and>
   list_all out_ok (fst (run_pool NewObjectPool
     [ReleaseBuf huge_buf, ReleaseBuf used_buf, AcquireBuf (Some 0), AcquireBuf (Some 0)]))"
proof -
  have b: "pool_bounded NewObjectPool" by (simp add: NewObjectPool_def pool_bounded_def)
  have r: "run_pool NewObjectPool
     [ReleaseBuf huge_buf, ReleaseBuf used_buf, AcquireBuf (Some 0), AcquireBuf (Some 0)] =
     ([GotBuf \<lparr>elems = [], capacity = 524288\<rparr>, GotBuf \<lparr>elems = [], capacity = 262144\<rparr>],
      NewObjectPool)"
    by (simp add: NewObjectPool_def ReleaseResponseBuffer_def AcquireResponseBuffer_def
        pool_Get_def pool_Put_def reslice0_def make_slice_def huge_buf_def used_buf_def)
  have c: "512 * 1024 < capacity huge_buf \<and> 200 < capacity huge_list"
    by (simp add: huge_buf_def huge_list_def)
  show ?thesis
    using pool_acquire_release_contract [of NewObjectPool "Some 0" huge_buf huge_list
        "[ReleaseBuf huge_buf, ReleaseBuf used_buf, AcquireBuf (Some 0), AcquireBuf (Some 0)]"]
      b c r by simp
qed

section \<open>Properties of the cache manager\<close>

lemmas scenario_defs =
  l1_only_manager_def two_tier_manager_def l2_only_manager_def l1_config_def default_Config_def
  demo_server_def healthy_def l1_rejecting_def bigcache_New_def demo_fetcher_def NewFetcher_def
  one_hour_def

lemmas tier_defs =
  bigcache_Get_def bigcache_Set_def redis_Get_def redis_Set_def redis_live_def


lemma NewManager_l1_only:
  "NewManager default_Config True server l2_ok = Inr l1_only_manager"
  by (simp add: NewManager_def initL1Cache_def default_Config_def l1_only_manager_def
      l1_config_def Let_def)

lemma NewManager_two_tier:
  "NewManager (default_Config\<lparr>Redis_Enabled := True\<rparr>) True server True =
   Inr (two_tier_manager server)"
  by (simp add: NewManager_def initL1Cache_def initL2Cache_def default_Config_def
      two_tier_manager_def l1_config_def Let_def)

lemma NewManager_zero_default:
  "NewManager zero_default_Config True server True = Inr (zero_default_manager server)"
  by (simp add: NewManager_def initL1Cache_def initL2Cache_def default_Config_def
      zero_default_Config_def zero_default_manager_def l1_config_def Let_def)

lemma NewManager_wf: "NewManager c l1_ok server l2_ok = Inr m \<Longrightarrow> wf_manager m"
  by (auto simp add: NewManager_def initL1Cache_def initL2Cache_def wf_manager_def
      bigcache_New_def Let_def split: if_splits sum.splits)

lemma Get_wf: "wf_manager m \<Longrightarrow> wf_manager (fst (snd (Get m e key)))"
  by (auto simp add: Get_def wf_manager_def bigcache_Set_def Let_def
      split: option.splits sum.splits)

lemma Set_wf: "wf_manager m \<Longrightarrow> wf_manager (fst (snd (Set m e key v ttl)))"
  by (auto simp add: Set_def wf_manager_def bigcache_Set_def Let_def)

lemma Delete_wf: "wf_manager m \<Longrightarrow> wf_manager (fst (snd (Delete m e key)))"
  by (auto simp add: Delete_def wf_manager_def bigcache_Delete_def Let_def)

text \<open>
  Claim C2 (tiered read order and promotion). \<open>Manager.Get\<close> reads L1 before anything
  else whenever L1 is enabled. On an L1 hit it returns the L1 value, leaves the manager as
  it was and performs the single tier operation \<open>L1_Get\<close>: Redis is not accessed. On an
  L1 miss with L2 enabled and holding a live entry it returns the L2 value after the
  operations \<open>L1_Get, L2_Get, L1_Set\<close>: the value is copied into L1 when that write
  succeeds, and when it fails the read returns the value all the same and the manager is
  unchanged. With L1 switched off by the configuration, an L2 hit is returned without
  promotion. When no enabled tier yields a value, the result is nil with the error
  \<open>CacheMiss key\<close> and the manager is unchanged.
\<close>

theorem Get_tiered_read:
  "(l1Enabled m \<and> bigcache_Get (l1Cache m) (now e) key = Some v
      \<longrightarrow> Get m e key = ((Some v, None), m, [L1_Get key]))
   \<and> (l1Enabled m \<longrightarrow> (\<exists>rest. snd (snd (Get m e key)) = L1_Get key # rest))
   \<and> (l1Enabled m \<and> bigcache_Get (l1Cache m) (now e) key = None \<and> l2Enabled m \<and>
       redis_Get (l2Cache m) (l2_get_ok e) (now e) key = Inr v
      \<longrightarrow> Get m e key =
            ((Some v, None),
             m\<lparr>l1Cache := bigcache_Set (l1Cache m) (l1_set_ok e) (now e) key v\<rparr>,
             [L1_Get key, L2_Get key, L1_Set key v])
          \<and> (l1_set_ok e \<longrightarrow>
               bc_entries (l1Cache (fst (snd (Get m e key)))) key = Some (v, now e))
          \<and> (\<not> l1_set_ok e \<longrightarrow> fst (snd (Get m e key)) = m))
   \<and> (\<not> l1Enabled m \<and> l2Enabled m \<and> redis_Get (l2Cache m) (l2_get_ok e) (now e) key = Inr v
      \<longrightarrow> Get m e key = ((Some v, None), m, [L2_Get key]))
   \<and> ((l1Enabled m \<longrightarrow> bigcache_Get (l1Cache m) (now e) key = None) \<and>
       (l2Enabled m \<longrightarrow> (\<exists>nil. redis_Get (l2Cache m) (l2_get_ok e) (now e) key = Inl nil))
      \<longrightarrow> fst (Get m e key) = (None, Some (CacheMiss key)) \<and> fst (snd (Get m e key)) = m)"
  by (auto simp add: Get_def bigcache_Set_def Let_def split: option.splits sum.splits)

theorem Get_tiered_read_witness:
  "(l1Enabled promoted_manager \<and>
    bigcache_Get (l1Cache promoted_manager) (now (healthy 2000)) ''demo_hot'' = Some demo_bytes \<and>
    Get promoted_manager (healthy 2000) ''demo_hot'' =
      ((Some demo_bytes, None), promoted_manager, [L1_Get ''demo_hot'']))
   \<and> (l1Enabled (two_tier_manager demo_server) \<and> l2Enabled (two_tier_manager demo_server) \<and>
      bigcache_Get (l1Cache (two_tier_manager demo_server)) (now (healthy 1000)) ''demo_hot'' = None \<and>
      redis_Get (l2Cache (two_tier_manager demo_server)) (l2_get_ok (healthy 1000))
        (now (healthy 1000)) ''demo_hot'' = Inr demo_bytes \<and>
      l1_set_ok (healthy 1000) \<and>
      fst (Get (two_tier_manager demo_server) (healthy 1000) ''demo_hot'') =
        (Some demo_bytes, None) \<and>
      snd (snd (Get (two_tier_manager demo_server) (healthy 1000) ''demo_hot'')) =
        [L1_Get ''demo_hot'', L2_Get ''demo_hot'', L1_Set ''demo_hot'' demo_bytes] \<and>
      bc_entries (l1Cache promoted_manager) ''demo_hot'' = Some (demo_bytes, 1000))
   \<and> (\<not> l1_set_ok (l1_rejecting 1000) \<and>
      redis_Get (l2Cache (two_tier_manager demo_server)) (l2_get_ok (l1_rejecting 1000))
        (now (l1_rejecting 1000)) ''demo_hot'' = Inr demo_bytes \<and>
      fst (Get (two_tier_manager demo_server) (l1_rejecting 1000) ''demo_hot'') =
        (Some demo_bytes, None) \<and>
      fst (snd (Get (two_tier_manager demo_server) (l1_rejecting 1000) ''demo_hot'')) =
        two_tier_manager demo_server)
   \<and> (\<not> l1Enabled (l2_only_manager demo_server) \<and> l2Enabled (l2_only_manager demo_server) \<and>
      Get (l2_only_manager demo_server) (healthy 1000) ''demo_hot'' =
        ((Some demo_bytes, None), l2_only_manager demo_server, [L2_Get ''demo_hot'']))
   \<and> (bigcache_Get (l1Cache (two_tier_manager Map.empty)) (now (healthy 1000)) ''demo_hot'' = None \<and>
      redis_Get (l2Cache (two_tier_manager Map.empty)) (l2_get_ok (healthy 1000))
        (now (healthy 1000)) ''demo_hot'' = Inl True \<and>
      fst (Get (two_tier_manager Map.empty) (healthy 1000) ''demo_hot'') =
        (None, Some (CacheMiss ''demo_hot'')) \<and>
      fst (snd (Get (two_tier_manager Map.empty) (healthy 1000) ''demo_hot'')) =
        two_tier_manager Map.empty)"
proof -
  have pm: "promoted_manager =
     (two_tier_manager demo_server)\<lparr>l1Cache :=
        \<lparr>bc_config = l1_config, bc_entries = [''demo_hot'' \<mapsto> (demo_bytes, 1000)]\<rparr>\<rparr>"
    by (simp add: promoted_manager_def Get_def scenario_defs tier_defs Let_def)
  have a: "l1Enabled promoted_manager \<and>
    bigcache_Get (l1Cache promoted_manager) (now (healthy 2000)) ''demo_hot'' = Some demo_bytes"
    unfolding pm by (simp add: scenario_defs tier_defs)
  have b: "l1Enabled (two_tier_manager demo_server) \<and> l2Enabled (two_tier_manager demo_server) \<and>
      bigcache_Get (l1Cache (two_tier_manager demo_server)) (now (healthy 1000)) ''demo_hot'' = None \<and>
      redis_Get (l2Cache (two_tier_manager demo_server)) (l2_get_ok (healthy 1000))
        (now (healthy 1000)) ''demo_hot'' = Inr demo_bytes \<and>
      l1_set_ok (healthy 1000)"
    by (simp add: scenario_defs tier_defs)
  have c: "\<not> l1_set_ok (l1_rejecting 1000) \<and>
      bigcache_Get (l1Cache (two_tier_manager demo_server)) (now (l1_rejecting 1000)) ''demo_hot'' = None \<and>
      redis_Get (l2Cache (two_tier_manager demo_server)) (l2_get_ok (l1_rejecting 1000))
        (now (l1_rejecting 1000)) ''demo_hot'' = Inr demo_bytes"
    by (simp add: scenario_defs tier_defs)
  have d: "\<not> l1Enabled (l2_only_manager demo_server) \<and> l2Enabled (l2_only_manager demo_server) \<and>
      redis_Get (l2Cache (l2_only_manager demo_server)) (l2_get_ok (healthy 1000))
        (now (healthy 1000)) ''demo_hot'' = Inr demo_bytes"
    by (simp add: scenario_defs tier_defs)
  have e: "bigcache_Get (l1Cache (two_tier_manager Map.empty)) (now (healthy 1000)) ''demo_hot'' = None \<and>
      redis_Get (l2Cache (two_tier_manager Map.empty)) (l2_get_ok (healthy 1000))
        (now (healthy 1000)) ''demo_hot'' = Inl True"
    by (simp add: scenario_defs tier_defs)
  have pe: "bc_entries (l1Cache promoted_manager) ''demo_hot'' = Some (demo_bytes, 1000)"
    unfolding pm by simp
  have pd: "promoted_manager = fst (snd (Get (two_tier_manager demo_server) (healthy 1000) ''demo_hot''))"
    by (simp add: promoted_manager_def)
  note t1 = Get_tiered_read [where m = promoted_manager and e = "healthy 2000"
      and key = "''demo_hot''" and v = demo_bytes]
  note t2 = Get_tiered_read [where m = "two_tier_manager demo_server" and e = "healthy 1000"
      and key = "''demo_hot''" and v = demo_bytes]
  note t3 = Get_tiered_read [where m = "two_tier_manager demo_server" and e = "l1_rejecting 1000"
      and key = "''demo_hot''" and v = demo_bytes]
  note t4 = Get_tiered_read [where m = "l2_only_manager demo_server" and e = "healthy 1000"
      and key = "''demo_hot''" and v = demo_bytes]
  note t5 = Get_tiered_read [where m = "two_tier_manager Map.empty" and e = "healthy 1000"
      and key = "''demo_hot''"]
  have r1: "Get promoted_manager (healthy 2000) ''demo_hot'' =
      ((Some demo_bytes, None), promoted_manager, [L1_Get ''demo_hot''])"
    using t1 a by blast
  have r2: "fst (Get (two_tier_manager demo_server) (healthy 1000) ''demo_hot'') =
        (Some demo_bytes, None) \<and>
      snd (snd (Get (two_tier_manager demo_server) (healthy 1000) ''demo_hot'')) =
        [L1_Get ''demo_hot'', L2_Get ''demo_hot'', L1_Set ''demo_hot'' demo_bytes]"
    using t2 b by simp
  have r3: "fst (Get (two_tier_manager demo_server) (l1_rejecting 1000) ''demo_hot'') =
        (Some demo_bytes, None) \<and>
      fst (snd (Get (two_tier_manager demo_server) (l1_rejecting 1000) ''demo_hot'')) =
        two_tier_manager demo_server"
    using t3 b c by (simp add: bigcache_Set_def)
  have r4: "Get (l2_only_manager demo_server) (healthy 1000) ''demo_hot'' =
        ((Some demo_bytes, None), l2_only_manager demo_server, [L2_Get ''demo_hot''])"
    using t4 d by blast
  have r5: "fst (Get (two_tier_manager Map.empty) (healthy 1000) ''demo_hot'') =
        (None, Some (CacheMiss ''demo_hot'')) \<and>
      fst (snd (Get (two_tier_manager Map.empty) (healthy 1000) ''demo_hot'')) =
        two_tier_manager Map.empty"
    using t5 e by blast
  show ?thesis using a b c d e pe r1 r2 r3 r4 r5 by simp
qed


text \<open>
  Claim C3, as amended (what each tier does with the time to live). For every
  \<open>Set(key, value, ttl)\<close> on a manager built by \<open>NewManager\<close>: the call returns nil and
  passes an expiry to Redis only, \<open>ttl\<close> itself, or \<open>cfg.Cache.DefaultExpire\<close> when
  \<open>ttl = 0\<close>; \<open>l1Cache.Set\<close> receives no expiry. So an enabled L1 whose write succeeds
  holds the entry for the cache-wide life window \<open>cfg.Cache.DefaultExpire\<close>, whatever
  \<open>ttl\<close> is. An enabled L2 whose write succeeds holds it until \<open>ttl\<close> has elapsed when
  \<open>ttl > 0\<close>; when \<open>ttl = 0\<close> it holds it until \<open>cfg.Cache.DefaultExpire\<close> has elapsed
  if that default is positive, and without expiry if it is not.
\<close>

theorem Set_tier_expiry:
  "wf_manager m \<longrightarrow>
     fst (Set m e key v ttl) = None
   \<and> snd (snd (Set m e key v ttl)) =
       (if l1Enabled m then [L1_Set key v] else []) @
       (if l2Enabled m then [L2_Set key v (l2_expiration m ttl)] else [])
   \<and> (l1Enabled m \<and> l1_set_ok e \<longrightarrow>
        bigcache_Get (l1Cache (fst (snd (Set m e key v ttl)))) t key =
          (if t < now e + sint (Cache_DefaultExpire (cfg m)) then Some v else None))
   \<and> (l2Enabled m \<and> l2_set_ok e \<longrightarrow>
        redis_Get (l2Cache (fst (snd (Set m e key v ttl)))) True t key =
          (if l2_live_at (l2_expiration m ttl) (now e) t then Inr v else Inl True))
   \<and> (0 <s ttl \<longrightarrow> l2_live_at (l2_expiration m ttl) (now e) t = (t < now e + sint ttl))
   \<and> (ttl = 0 \<and> 0 <s Cache_DefaultExpire (cfg m) \<longrightarrow>
        l2_live_at (l2_expiration m ttl) (now e) t =
          (t < now e + sint (Cache_DefaultExpire (cfg m))))
   \<and> (ttl = 0 \<and> \<not> 0 <s Cache_DefaultExpire (cfg m) \<longrightarrow>
        l2_live_at (l2_expiration m ttl) (now e) t)"
  by (auto simp add: Set_def wf_manager_def bigcache_Set_def bigcache_Get_def redis_Set_def
      redis_Get_def redis_live_def l2_expiration_def l2_live_at_def Let_def)

theorem Set_tier_expiry_witness:
  "wf_manager (two_tier_manager Map.empty) \<and>
   l1Enabled (two_tier_manager Map.empty) \<and> l2Enabled (two_tier_manager Map.empty) \<and>
   l1_set_ok (healthy 0) \<and> l2_set_ok (healthy 0) \<and> 0 <s one_hour \<and>
   snd (snd (Set (two_tier_manager Map.empty) (healthy 0) ''demo_hot'' demo_bytes one_hour)) =
     [L1_Set ''demo_hot'' demo_bytes, L2_Set ''demo_hot'' demo_bytes one_hour] \<and>
   bigcache_Get (l1Cache (fst (snd (Set (two_tier_manager Map.empty) (healthy 0)
       ''demo_hot'' demo_bytes one_hour)))) 600000000000 ''demo_hot'' = None \<and>
   redis_Get (l2Cache (fst (snd (Set (two_tier_manager Map.empty) (healthy 0)
       ''demo_hot'' demo_bytes one_hour)))) True 600000000000 ''demo_hot'' = Inr demo_bytes \<and>
   snd (snd (Set (two_tier_manager Map.empty) (healthy 0) ''demo_hot'' demo_bytes 0)) =
     [L1_Set ''demo_hot'' demo_bytes, L2_Set ''demo_hot'' demo_bytes 300000000000] \<and>
   0 <s Cache_DefaultExpire (cfg (two_tier_manager Map.empty)) \<and>
   redis_Get (l2Cache (fst (snd (Set (two_tier_manager Map.empty) (healthy 0)
       ''demo_hot'' demo_bytes 0)))) True 600000000000 ''demo_hot'' = Inl True \<and>
   wf_manager (zero_default_manager Map.empty) \<and>
   l2Enabled (zero_default_manager Map.empty) \<and>
   \<not> 0 <s Cache_DefaultExpire (cfg (zero_default_manager Map.empty)) \<and>
   snd (snd (Set (zero_default_manager Map.empty) (healthy 0) ''demo_hot'' demo_bytes 0)) =
     [L1_Set ''demo_hot'' demo_bytes, L2_Set ''demo_hot'' demo_bytes 0] \<and>
   redis_Get (l2Cache (fst (snd (Set (zero_default_manager Map.empty) (healthy 0)
       ''demo_hot'' demo_bytes 0)))) True 600000000000 ''demo_hot'' = Inr demo_bytes"
proof -
  have h: "wf_manager (two_tier_manager Map.empty) \<and>
   l1Enabled (two_tier_manager Map.empty) \<and> l2Enabled (two_tier_manager Map.empty) \<and>
   l1_set_ok (healthy 0) \<and> l2_set_ok (healthy 0) \<and> 0 <s one_hour \<and>
   0 <s Cache_DefaultExpire (cfg (two_tier_manager Map.empty))"
    by (simp add: wf_manager_def scenario_defs word_sless_alt)
  have hz: "wf_manager (zero_default_manager Map.empty) \<and>
   l1Enabled (zero_default_manager Map.empty) \<and> l2Enabled (zero_default_manager Map.empty) \<and>
   \<not> 0 <s Cache_DefaultExpire (cfg (zero_default_manager Map.empty))"
    by (simp add: wf_manager_def zero_default_manager_def zero_default_Config_def
        scenario_defs word_sless_alt)
  have v: "sint one_hour = 3600000000000 \<and>
           sint (Cache_DefaultExpire (cfg (two_tier_manager Map.empty))) = 300000000000 \<and>
           now (healthy 0) = 0 \<and>
           l2_expiration (two_tier_manager Map.empty) 0 = 300000000000 \<and>
           l2_expiration (two_tier_manager Map.empty) one_hour = one_hour \<and>
           l2_expiration (zero_default_manager Map.empty) 0 = 0"
    by (simp add: scenario_defs l2_expiration_def zero_default_manager_def
        zero_default_Config_def)
  note t1 = Set_tier_expiry [where m = "two_tier_manager Map.empty" and e = "healthy 0"
      and key = "''demo_hot''" and v = demo_bytes and ttl = one_hour and t = 600000000000]
  note t2 = Set_tier_expiry [where m = "two_tier_manager Map.empty" and e = "healthy 0"
      and key = "''demo_hot''" and v = demo_bytes and ttl = 0 and t = 600000000000]
  note t3 = Set_tier_expiry [where m = "zero_default_manager Map.empty" and e = "healthy 0"
      and key = "''demo_hot''" and v = demo_bytes and ttl = 0 and t = 600000000000]
  show ?thesis using h hz v t1 t2 t3 by (simp add: l2_live_at_def)
qed

text \<open>
  Claim C3 as stated fails. With the default configuration (five minutes) and a time to
  live of one hour, the L1 entry written at clock 0 is gone after ten minutes; with a
  time to live of one minute it is still served after two minutes. With a default expiry
  of zero and \<open>ttl = 0\<close>, Redis receives the expiry 0 and keeps the entry for ever.
\<close>

theorem Set_tier_expiry_counterexample:
  "l1Enabled l1_only_manager \<and> l1_set_ok (healthy 0) \<and> 0 <s one_hour \<and>
   (600000000000 :: int) < now (healthy 0) + sint one_hour \<and>
   bigcache_Get (l1Cache (fst (snd (Set l1_only_manager (healthy 0) ''demo_hot'' demo_bytes one_hour))))
     600000000000 ''demo_hot'' = None \<and>
   0 <s (60000000000 :: Duration) \<and>
   \<not> (120000000000 :: int) < now (healthy 0) + sint (60000000000 :: Duration) \<and>
   bigcache_Get (l1Cache (fst (snd (Set l1_only_manager (healthy 0) ''demo_hot'' demo_bytes 60000000000))))
     120000000000 ''demo_hot'' = Some demo_bytes \<and>
   l2Enabled (zero_default_manager Map.empty) \<and> l2_set_ok (healthy 0) \<and>
   Cache_DefaultExpire (cfg (zero_default_manager Map.empty)) = 0 \<and>
   snd (snd (Set (zero_default_manager Map.empty) (healthy 0) ''demo_hot'' demo_bytes 0)) =
     [L1_Set ''demo_hot'' demo_bytes, L2_Set ''demo_hot'' demo_bytes 0] \<and>
   l2Cache (fst (snd (Set (zero_default_manager Map.empty) (healthy 0) ''demo_hot'' demo_bytes 0)))
     ''demo_hot'' = Some \<lparr>re_value = demo_bytes, re_stored = 0, re_ttl = None\<rparr> \<and>
   redis_Get (l2Cache (fst (snd (Set (zero_default_manager Map.empty) (healthy 0)
       ''demo_hot'' demo_bytes 0)))) True 1000000000000000000 ''demo_hot'' = Inr demo_bytes"
  by (simp add: Set_def scenario_defs tier_defs zero_default_manager_def zero_default_Config_def
      Let_def word_sless_alt)

section \<open>Properties of the fetch orchestrator\<close>

lemma Get_result_cases:
  "fst (Get m e key) = (None, Some (CacheMiss key)) \<and> fst (snd (Get m e key)) = m
   \<or> (\<exists>v. fst (Get m e key) = (Some v, None))"
  by (auto simp add: Get_def Let_def split: option.splits sum.splits)

lemma Get_again:
  "fst (Get (fst (snd (Get m e key))) e key) = fst (Get m e key)"
proof (cases "if l1Enabled m then bigcache_Get (l1Cache m) (now e) key else None")
  case (Some data)
  then show ?thesis by (simp add: Get_def)
next
  case None
  note l1 = None
  show ?thesis
  proof (cases "l2Enabled m")
    case False
    then show ?thesis using l1 by (simp add: Get_def)
  next
    case True
    show ?thesis
    proof (cases "redis_Get (l2Cache m) (l2_get_ok e) (now e) key")
      case (Inl nil)
      then show ?thesis using l1 True by (simp add: Get_def)
    next
      case (Inr data)
      show ?thesis
      proof (cases "l1Enabled m")
        case False
        then show ?thesis using l1 True Inr by (simp add: Get_def)
      next
        case en: True
        let ?m' = "m\<lparr>l1Cache := bigcache_Set (l1Cache m) (l1_set_ok e) (now e) key data\<rparr>"
        have g: "Get m e key = ((Some data, None), ?m', [L1_Get key, L2_Get key, L1_Set key data])"
          using l1 True Inr en by (simp add: Get_def)
        have "bigcache_Get (l1Cache ?m') (now e) key = None \<or>
              bigcache_Get (l1Cache ?m') (now e) key = Some data"
          using l1 en by (simp add: bigcache_Get_def bigcache_Set_def split: option.splits)
        then have "fst (Get ?m' e key) = (Some data, None)"
          using True Inr en by (auto simp add: Get_def)
        then show ?thesis using g by simp
      qed
    qed
  qed
qed

lemma Get_l2_unchanged: "l2Cache (fst (snd (Get m e key))) = l2Cache m"
  by (auto simp add: Get_def Let_def split: option.splits sum.splits)

lemma GetData_miss_unfold:
  assumes "cached_list json (fst (Get (cache f) e K)) = None"
  shows "GetData f json e ew K p s ttl fetchFunc =
     (case snd (fetchFunc ()) of
        Some err1 \<Rightarrow>
          ((None, Some (FetchDataFailed p err1)),
           f\<lparr>cache := fst (snd (Get (cache f) e K))\<rparr>,
           \<lparr>fetch_calls = 1, accesses = snd (snd (Get (cache f) e K))\<rparr>)
      | None \<Rightarrow>
          ((Some (SimpleSuccessResponse (now ew) p s (fst (fetchFunc ())) False), None),
           f\<lparr>cache := fst (write_back (fst (snd (Get (cache f) e K))) json ew K
                             (fst (fetchFunc ())) ttl)\<rparr>,
           \<lparr>fetch_calls = 1,
            accesses = snd (snd (Get (cache f) e K)) @
                       snd (write_back (fst (snd (Get (cache f) e K))) json ew K
                             (fst (fetchFunc ())) ttl)\<rparr>))"
proof -
  obtain cachedData err m1 tr1 where g: "Get (cache f) e K = ((cachedData, err), m1, tr1)"
    by (metis prod.exhaust)
  show ?thesis using assms g
    by (simp add: GetData_def split: prod.splits option.splits)
qed

lemma GetData_hit_unfold:
  assumes "cached_list json (fst (Get (cache f) e K)) = Some l"
  shows "GetData f json e ew K p s ttl fetchFunc =
     ((Some (SimpleSuccessResponse (now e) p s l True), None),
      f\<lparr>cache := fst (snd (Get (cache f) e K))\<rparr>,
      \<lparr>fetch_calls = 0, accesses = snd (snd (Get (cache f) e K))\<rparr>)"
proof -
  obtain cachedData err m1 tr1 where g: "Get (cache f) e K = ((cachedData, err), m1, tr1)"
    by (metis prod.exhaust)
  show ?thesis using assms g by (simp add: GetData_def)
qed

lemma GetData_miss_calls:
  "cached_list json (fst (Get (cache f) e K)) = None \<Longrightarrow>
   fetch_calls (snd (snd (GetData f json e ew K p s ttl fetchFunc))) = 1"
  by (simp add: GetData_miss_unfold split: option.splits)

lemma Get_no_entry:
  assumes "l1Enabled m \<longrightarrow> bc_entries (l1Cache m) K = None"
    and "l2Enabled m \<longrightarrow> l2Cache m K = None"
  shows "fst (Get m e K) = (None, Some (CacheMiss K)) \<and> fst (snd (Get m e K)) = m"
  using assms
  by (simp add: Get_def bigcache_Get_def redis_Get_def Let_def)

lemma cached_list_miss [simp]: "cached_list json (None, Some err) = None"
  by (simp add: cached_list_def)

lemma cached_list_hit: "cached_list json (Some bs, None) =
    (case Unmarshal json bs of Inr l \<Rightarrow> Some l | Inl uerr \<Rightarrow> None)"
  by (simp add: cached_list_def bytes_of_def)

lemma Set_fields:
  "l1Enabled (fst (snd (Set m e K v ttl))) = l1Enabled m \<and>
   l2Enabled (fst (snd (Set m e K v ttl))) = l2Enabled m \<and>
   cfg (fst (snd (Set m e K v ttl))) = cfg m \<and>
   bc_config (l1Cache (fst (snd (Set m e K v ttl)))) = bc_config (l1Cache m)"
  by (simp add: Set_def bigcache_Set_def Let_def)

lemma Set_l1_entry:
  "bc_entries (l1Cache (fst (snd (Set m e K v ttl)))) K =
     (if l1Enabled m \<and> l1_set_ok e then Some (v, now e) else bc_entries (l1Cache m) K)"
  by (simp add: Set_def bigcache_Set_def Let_def)

lemma Set_l2_entry:
  "l2Cache (fst (snd (Set m e K v ttl))) K =
     (if l2Enabled m \<and> l2_set_ok e
      then Some \<lparr>re_value = v, re_stored = now e,
                 re_ttl = (if 0 <s l2_expiration m ttl then Some (l2_expiration m ttl) else None)\<rparr>
      else l2Cache m K)"
  by (simp add: Set_def redis_Set_def l2_expiration_def Let_def)

lemma Get_after_Set:
  assumes wf: "wf_manager m"
    and n1: "l1Enabled m \<longrightarrow> bc_entries (l1Cache m) K = None"
    and n2: "l2Enabled m \<longrightarrow> l2Cache m K = None"
    and live: "(l1Enabled m \<and> l1_set_ok e1 \<and>
                now e2 < now e1 + sint (Cache_DefaultExpire (cfg m)))
             \<or> (l2Enabled m \<and> l2_set_ok e1 \<and> l2_get_ok e2 \<and>
                l2_live_at (l2_expiration m ttl) (now e1) (now e2))"
  shows "fst (Get (fst (snd (Set m e1 K bs ttl))) e2 K) = (Some bs, None)"
proof -
  let ?m' = "fst (snd (Set m e1 K bs ttl))"
  have f: "l1Enabled ?m' = l1Enabled m" "l2Enabled ?m' = l2Enabled m"
    "bc_config (l1Cache ?m') = bc_config (l1Cache m)"
    using Set_fields [of m e1 K bs ttl] by simp_all
  have l1: "l1Enabled m \<Longrightarrow>
            bigcache_Get (l1Cache ?m') (now e2) K = None \<or>
            bigcache_Get (l1Cache ?m') (now e2) K = Some bs"
    using n1 by (simp add: bigcache_Get_def Set_l1_entry)
  from live show ?thesis
  proof
    assume a: "l1Enabled m \<and> l1_set_ok e1 \<and>
               now e2 < now e1 + sint (Cache_DefaultExpire (cfg m))"
    have "LifeWindow (bc_config (l1Cache m)) = Cache_DefaultExpire (cfg m)"
      using wf a by (simp add: wf_manager_def)
    then have "bigcache_Get (l1Cache ?m') (now e2) K = Some bs"
      using a f by (simp add: bigcache_Get_def Set_l1_entry)
    then show ?thesis using a f by (simp add: Get_def)
  next
    assume b: "l2Enabled m \<and> l2_set_ok e1 \<and> l2_get_ok e2 \<and>
               l2_live_at (l2_expiration m ttl) (now e1) (now e2)"
    have r: "redis_Get (l2Cache ?m') (l2_get_ok e2) (now e2) K = Inr bs"
      using b by (simp add: redis_Get_def Set_l2_entry redis_live_def l2_live_at_def)
    show ?thesis
    proof (cases "l1Enabled m")
      case False
      then show ?thesis using r b f by (simp add: Get_def)
    next
      case True
      from l1 [OF True] show ?thesis
      proof
        assume "bigcache_Get (l1Cache ?m') (now e2) K = None"
        then show ?thesis using r b f True by (simp add: Get_def)
      next
        assume "bigcache_Get (l1Cache ?m') (now e2) K = Some bs"
        then show ?thesis using f True by (simp add: Get_def)
      qed
    qed
  qed
qed

lemmas run_defs =
  GetData_def Get_def Set_def write_back_def cached_list_def bytes_of_def
  demo_source_def empty_source_def failing_source_def demo_json_def
  scenario_defs tier_defs Let_def

lemma after_first_call_eq:
  "after_first_call =
     \<lparr>cache = l1_only_manager\<lparr>l1Cache :=
        \<lparr>bc_config = l1_config, bc_entries = [''demo_hot'' \<mapsto> (demo_bytes, 0)]\<rparr>\<rparr>,
      objectPool = NewObjectPool\<rparr>"
  by (simp add: after_first_call_def GetData_def Get_def Set_def write_back_def cached_list_def
      demo_source_def demo_json_def scenario_defs tier_defs Let_def)

lemma Get_trace_shape:
  "a \<in> set (snd (snd (Get m e K))) \<Longrightarrow>
   a = L1_Get K \<or> a = L2_Get K \<or>
   (\<exists>v. a = L1_Set K v \<and> l1Enabled m \<and> fst (Get m e K) = (Some v, None) \<and>
        redis_Get (l2Cache m) (l2_get_ok e) (now e) K = Inr v)"
  by (auto simp add: Get_def Let_def split: option.splits sum.splits if_splits)

lemma Get_miss_trace:
  "fst (Get m e K) = (None, Some (CacheMiss K)) \<Longrightarrow>
   set (snd (snd (Get m e K))) \<subseteq> {L1_Get K, L2_Get K}"
  by (auto simp add: Get_def Let_def split: option.splits sum.splits if_splits)

lemma cached_none_not_deserializable:
  "cached_list json (Some v, None) = None \<Longrightarrow> \<not> deserializable json v"
  by (simp add: cached_list_def bytes_of_def deserializable_def split: sum.splits)

lemma not_deserializable_cached_none:
  "\<not> deserializable json v \<Longrightarrow> cached_list json (Some v, None) = None"
  by (simp add: cached_list_def bytes_of_def deserializable_def split: sum.splits)

lemma lookup_trace_writes:
  assumes un: "cached_list json (fst (Get m e K)) = None"
    and a: "a \<in> set (snd (snd (Get m e K)))"
  shows "a = L1_Get K \<or> a = L2_Get K \<or>
         (\<exists>v. a = L1_Set K v \<and> l1Enabled m \<and>
              redis_Get (l2Cache m) (l2_get_ok e) (now e) K = Inr v \<and>
              \<not> deserializable json v)"
proof -
  from Get_trace_shape [OF a]
  consider "a = L1_Get K \<or> a = L2_Get K"
    | v where "a = L1_Set K v" "l1Enabled m" "fst (Get m e K) = (Some v, None)"
        "redis_Get (l2Cache m) (l2_get_ok e) (now e) K = Inr v"
    by blast
  then show ?thesis
  proof cases
    case 1
    then show ?thesis by blast
  next
    case 2
    have "\<not> deserializable json v"
      using un 2(3) by (simp add: cached_none_not_deserializable)
    then show ?thesis using 2 by blast
  qed
qed

lemma bigcache_Get_held:
  "l1Enabled m \<Longrightarrow> bigcache_Get (l1Cache m) t K = Some v \<Longrightarrow> tier_holds m K v"
  by (auto simp add: bigcache_Get_def tier_holds_def split: option.splits if_splits)

lemma redis_Get_held:
  "l2Enabled m \<Longrightarrow> redis_Get (l2Cache m) ok t K = Inr v \<Longrightarrow> tier_holds m K v"
  by (auto simp add: redis_Get_def tier_holds_def split: option.splits if_splits)

lemma Get_value_held:
  assumes "fst (Get m e K) = (Some v, None)"
  shows "tier_holds m K v"
proof (cases "if l1Enabled m then bigcache_Get (l1Cache m) (now e) K else None")
  case (Some data)
  then have "l1Enabled m" "bigcache_Get (l1Cache m) (now e) K = Some data"
    by (simp_all split: if_splits)
  moreover have "data = v" using assms Some by (simp add: Get_def)
  ultimately show ?thesis using bigcache_Get_held by blast
next
  case None
  then have g: "l2Enabled m \<and> redis_Get (l2Cache m) (l2_get_ok e) (now e) K = Inr v"
    using assms by (auto simp add: Get_def Let_def split: sum.splits if_splits)
  then show ?thesis using redis_Get_held by blast
qed

lemma held_after_Get:
  assumes "tier_holds (fst (snd (Get m e K))) K w"
  shows "tier_holds m K w"
proof (cases "fst (snd (Get m e K)) = m")
  case True
  then show ?thesis using assms by simp
next
  case False
  then have p: "l1Enabled m \<and> l2Enabled m \<and>
      (\<exists>v. redis_Get (l2Cache m) (l2_get_ok e) (now e) K = Inr v \<and>
           fst (snd (Get m e K)) =
             m\<lparr>l1Cache := bigcache_Set (l1Cache m) (l1_set_ok e) (now e) K v\<rparr>)"
    by (auto simp add: Get_def Let_def split: option.splits sum.splits if_splits)
  then obtain v where v: "redis_Get (l2Cache m) (l2_get_ok e) (now e) K = Inr v"
    and m': "fst (snd (Get m e K)) =
             m\<lparr>l1Cache := bigcache_Set (l1Cache m) (l1_set_ok e) (now e) K v\<rparr>"
    by blast
  have hv: "tier_holds m K v" using p v redis_Get_held by blast
  show ?thesis
    using assms hv unfolding m'
    by (auto simp add: tier_holds_def bigcache_Set_def split: option.splits if_splits)
qed

lemma later_lookup_unusable:
  assumes "\<forall>v. tier_holds m K v \<longrightarrow> \<not> deserializable json v"
  shows "cached_list json (fst (Get (fst (snd (Get m e K))) e' K)) = None"
proof -
  let ?m1 = "fst (snd (Get m e K))"
  from Get_result_cases [of ?m1 e' K] show ?thesis
  proof
    assume "fst (Get ?m1 e' K) = (None, Some (CacheMiss K)) \<and> fst (snd (Get ?m1 e' K)) = ?m1"
    then show ?thesis by simp
  next
    assume "\<exists>v. fst (Get ?m1 e' K) = (Some v, None)"
    then obtain v where v: "fst (Get ?m1 e' K) = (Some v, None)" by blast
    have "tier_holds m K v"
      using Get_value_held [OF v] held_after_Get by blast
    then have "\<not> deserializable json v" using assms by blast
    then show ?thesis using v by (simp add: not_deserializable_cached_none)
  qed
qed

lemmas more_defs =
  corrupt_server_def corrupt_fetcher_def two_tier_fetcher_def l2_unreadable_def number_json_def
  big_record_def big_record_read_def big_bytes_def big_bytes_read_def big_source_def
  demo_record_def demo_bytes_def deserializable_def tier_holds_def
  SimpleSuccessResponse_def SuccessResponse_def

text \<open>
  Claim C5, as amended (data-source error propagation). Take a \<open>GetData\<close> call whose
  cache lookup gives no usable list, so that the data source is invoked, and whose data
  source returns the error \<open>err\<close>. The call returns a nil response and
  \<open>FetchDataFailed platformName err\<close>, and the data source has been invoked exactly
  once. \<open>Manager.Set\<close> is not called: the tier operations of the call are those of its
  lookup, that is reads of the key and, if there is a write, the promotion into L1 of
  the entry that L2 returned and that failed to deserialize. Redis is unchanged, a lookup
  of the key gives what it gave before, and when the lookup was a plain miss the call
  performs no write and leaves the cache as it was.
\<close>

theorem GetData_source_error:
  "cached_list json (fst (Get (cache f) e K)) = None \<and> fetchFunc () = (xs, Some err)
   \<longrightarrow> fst (GetData f json e ew K p s ttl fetchFunc) = (None, Some (FetchDataFailed p err))
     \<and> fetch_calls (snd (snd (GetData f json e ew K p s ttl fetchFunc))) = 1
     \<and> accesses (snd (snd (GetData f json e ew K p s ttl fetchFunc))) =
         snd (snd (Get (cache f) e K))
     \<and> cache (fst (snd (GetData f json e ew K p s ttl fetchFunc))) =
         fst (snd (Get (cache f) e K))
     \<and> (\<forall>a \<in> set (accesses (snd (snd (GetData f json e ew K p s ttl fetchFunc)))).
           a = L1_Get K \<or> a = L2_Get K \<or>
           (\<exists>v. a = L1_Set K v \<and> l1Enabled (cache f) \<and>
                redis_Get (l2Cache (cache f)) (l2_get_ok e) (now e) K = Inr v \<and>
                \<not> deserializable json v))
     \<and> l2Cache (cache (fst (snd (GetData f json e ew K p s ttl fetchFunc)))) = l2Cache (cache f)
     \<and> fst (Get (cache (fst (snd (GetData f json e ew K p s ttl fetchFunc)))) e K) =
         fst (Get (cache f) e K)
     \<and> (fst (Get (cache f) e K) = (None, Some (CacheMiss K))
          \<longrightarrow> cache (fst (snd (GetData f json e ew K p s ttl fetchFunc))) = cache f
            \<and> set (accesses (snd (snd (GetData f json e ew K p s ttl fetchFunc))))
                \<subseteq> {L1_Get K, L2_Get K})"
proof
  assume h: "cached_list json (fst (Get (cache f) e K)) = None \<and> fetchFunc () = (xs, Some err)"
  have u: "GetData f json e ew K p s ttl fetchFunc =
            ((None, Some (FetchDataFailed p err)),
             f\<lparr>cache := fst (snd (Get (cache f) e K))\<rparr>,
             \<lparr>fetch_calls = 1, accesses = snd (snd (Get (cache f) e K))\<rparr>)"
    using h by (simp add: GetData_miss_unfold)
  have m: "fst (Get (cache f) e K) = (None, Some (CacheMiss K))
           \<longrightarrow> fst (snd (Get (cache f) e K)) = cache f"
    using Get_result_cases [of "cache f" e K] by auto
  have w: "\<forall>a \<in> set (snd (snd (Get (cache f) e K))).
           a = L1_Get K \<or> a = L2_Get K \<or>
           (\<exists>v. a = L1_Set K v \<and> l1Enabled (cache f) \<and>
                redis_Get (l2Cache (cache f)) (l2_get_ok e) (now e) K = Inr v \<and>
                \<not> deserializable json v)"
    using h lookup_trace_writes [of json "cache f" e K] by blast
  have t: "fst (Get (cache f) e K) = (None, Some (CacheMiss K))
           \<longrightarrow> set (snd (snd (Get (cache f) e K))) \<subseteq> {L1_Get K, L2_Get K}"
    using Get_miss_trace [of "cache f" e K] by blast
  show "fst (GetData f json e ew K p s ttl fetchFunc) = (None, Some (FetchDataFailed p err))
     \<and> fetch_calls (snd (snd (GetData f json e ew K p s ttl fetchFunc))) = 1
     \<and> accesses (snd (snd (GetData f json e ew K p s ttl fetchFunc))) =
         snd (snd (Get (cache f) e K))
     \<and> cache (fst (snd (GetData f json e ew K p s ttl fetchFunc))) =
         fst (snd (Get (cache f) e K))
     \<and> (\<forall>a \<in> set (accesses (snd (snd (GetData f json e ew K p s ttl fetchFunc)))).
           a = L1_Get K \<or> a = L2_Get K \<or>
           (\<exists>v. a = L1_Set K v \<and> l1Enabled (cache f) \<and>
                redis_Get (l2Cache (cache f)) (l2_get_ok e) (now e) K = Inr v \<and>
                \<not> deserializable json v))
     \<and> l2Cache (cache (fst (snd (GetData f json e ew K p s ttl fetchFunc)))) = l2Cache (cache f)
     \<and> fst (Get (cache (fst (snd (GetData f json e ew K p s ttl fetchFunc)))) e K) =
         fst (Get (cache f) e K)
     \<and> (fst (Get (cache f) e K) = (None, Some (CacheMiss K))
          \<longrightarrow> cache (fst (snd (GetData f json e ew K p s ttl fetchFunc))) = cache f
            \<and> set (accesses (snd (snd (GetData f json e ew K p s ttl fetchFunc))))
                \<subseteq> {L1_Get K, L2_Get K})"
    unfolding u using m w t by (simp add: Get_again Get_l2_unchanged)
qed

theorem GetData_source_error_witness:
  "cached_list demo_json (fst (Get (cache demo_fetcher) (healthy 0) ''demo_hot'')) = None \<and>
   failing_source () = ([], Some (UpstreamError ''upstream 502'')) \<and>
   fst (Get (cache demo_fetcher) (healthy 0) ''demo_hot'') = (None, Some (CacheMiss ''demo_hot'')) \<and>
   GetData demo_fetcher demo_json (healthy 0) (healthy 5) ''demo_hot'' ''demo'' ''hot''
       one_hour failing_source =
     ((None, Some (FetchDataFailed ''demo'' (UpstreamError ''upstream 502''))), demo_fetcher,
      \<lparr>fetch_calls = 1, accesses = [L1_Get ''demo_hot'']\<rparr>) \<and>
   cached_list demo_json (fst (Get (cache corrupt_fetcher) (healthy 1000) ''demo_hot'')) = None \<and>
   redis_Get (l2Cache (cache corrupt_fetcher)) (l2_get_ok (healthy 1000)) (now (healthy 1000))
     ''demo_hot'' = Inr [123] \<and>
   \<not> deserializable demo_json [123] \<and>
   fst (GetData corrupt_fetcher demo_json (healthy 1000) (healthy 1005) ''demo_hot'' ''demo''
         ''hot'' one_hour failing_source) =
     (None, Some (FetchDataFailed ''demo'' (UpstreamError ''upstream 502''))) \<and>
   accesses (snd (snd (GetData corrupt_fetcher demo_json (healthy 1000) (healthy 1005)
         ''demo_hot'' ''demo'' ''hot'' one_hour failing_source))) =
     [L1_Get ''demo_hot'', L2_Get ''demo_hot'', L1_Set ''demo_hot'' [123]] \<and>
   l2Cache (cache (fst (snd (GetData corrupt_fetcher demo_json (healthy 1000) (healthy 1005)
         ''demo_hot'' ''demo'' ''hot'' one_hour failing_source)))) = corrupt_server"
proof -
  have h: "cached_list demo_json (fst (Get (cache demo_fetcher) (healthy 0) ''demo_hot'')) = None \<and>
   failing_source () = ([], Some (UpstreamError ''upstream 502'')) \<and>
   fst (Get (cache demo_fetcher) (healthy 0) ''demo_hot'') = (None, Some (CacheMiss ''demo_hot''))"
    by (simp add: run_defs)
  have hc: "cached_list demo_json (fst (Get (cache corrupt_fetcher) (healthy 1000) ''demo_hot'')) = None \<and>
   redis_Get (l2Cache (cache corrupt_fetcher)) (l2_get_ok (healthy 1000)) (now (healthy 1000))
     ''demo_hot'' = Inr [123] \<and>
   \<not> deserializable demo_json [123]"
    by (simp add: run_defs more_defs)
  have gc: "snd (snd (Get (cache corrupt_fetcher) (healthy 1000) ''demo_hot'')) =
     [L1_Get ''demo_hot'', L2_Get ''demo_hot'', L1_Set ''demo_hot'' [123]] \<and>
     l2Cache (cache corrupt_fetcher) = corrupt_server"
    by (simp add: run_defs more_defs)
  note t = GetData_source_error [where f = demo_fetcher and json = demo_json
      and e = "healthy 0" and ew = "healthy 5" and K = "''demo_hot''"
      and fetchFunc = failing_source and xs = "[]" and err = "UpstreamError ''upstream 502''"
      and p = "''demo''" and s = "''hot''" and ttl = one_hour]
  note tc = GetData_source_error [where f = corrupt_fetcher and json = demo_json
      and e = "healthy 1000" and ew = "healthy 1005" and K = "''demo_hot''"
      and fetchFunc = failing_source and xs = "[]" and err = "UpstreamError ''upstream 502''"
      and p = "''demo''" and s = "''hot''" and ttl = one_hour]
  have r: "GetData demo_fetcher demo_json (healthy 0) (healthy 5) ''demo_hot'' ''demo'' ''hot''
       one_hour failing_source =
     ((None, Some (FetchDataFailed ''demo'' (UpstreamError ''upstream 502''))), demo_fetcher,
      \<lparr>fetch_calls = 1, accesses = [L1_Get ''demo_hot'']\<rparr>)"
    by (simp add: run_defs)
  have rc: "fst (GetData corrupt_fetcher demo_json (healthy 1000) (healthy 1005) ''demo_hot'' ''demo''
         ''hot'' one_hour failing_source) =
     (None, Some (FetchDataFailed ''demo'' (UpstreamError ''upstream 502''))) \<and>
   accesses (snd (snd (GetData corrupt_fetcher demo_json (healthy 1000) (healthy 1005)
         ''demo_hot'' ''demo'' ''hot'' one_hour failing_source))) =
     [L1_Get ''demo_hot'', L2_Get ''demo_hot'', L1_Set ''demo_hot'' [123]] \<and>
   l2Cache (cache (fst (snd (GetData corrupt_fetcher demo_json (healthy 1000) (healthy 1005)
         ''demo_hot'' ''demo'' ''hot'' one_hour failing_source)))) = corrupt_server"
    by (simp add: run_defs more_defs)
  show ?thesis using t tc h hc r rc by simp
qed

text \<open>
  Claim C5 as stated fails: a failed call can write the cache. Redis holds for
  \<open>demo_hot\<close> an entry that is not JSON and L1 holds nothing. The lookup promotes the
  entry into L1 before it is deserialized, the data source then fails, and the call has
  performed \<open>L1_Set\<close> and left an L1 entry that was not there.
\<close>

theorem GetData_source_error_counterexample:
  "cached_list demo_json (fst (Get (cache corrupt_fetcher) (healthy 1000) ''demo_hot'')) = None \<and>
   failing_source () = ([], Some (UpstreamError ''upstream 502'')) \<and>
   fst (GetData corrupt_fetcher demo_json (healthy 1000) (healthy 1005) ''demo_hot'' ''demo''
         ''hot'' one_hour failing_source) =
     (None, Some (FetchDataFailed ''demo'' (UpstreamError ''upstream 502''))) \<and>
   accesses (snd (snd (GetData corrupt_fetcher demo_json (healthy 1000) (healthy 1005)
         ''demo_hot'' ''demo'' ''hot'' one_hour failing_source))) =
     [L1_Get ''demo_hot'', L2_Get ''demo_hot'', L1_Set ''demo_hot'' [123]] \<and>
   bc_entries (l1Cache (cache corrupt_fetcher)) ''demo_hot'' = None \<and>
   bc_entries (l1Cache (cache (fst (snd (GetData corrupt_fetcher demo_json (healthy 1000)
       (healthy 1005) ''demo_hot'' ''demo'' ''hot'' one_hour failing_source))))) ''demo_hot'' =
     Some ([123], 1000)"
  by (simp add: run_defs more_defs)

text \<open>
  Claim C4, as amended (an empty result is not cached). Take a \<open>GetData\<close> call whose
  cache lookup gives no usable list and whose data source succeeds with the empty list.
  The call returns a nil error and a response with \<open>FromCache = False\<close>, the empty list,
  \<open>Total = 0\<close> and \<open>Code = 200\<close>, after one invocation of the data source.
  \<open>Manager.Set\<close> is not called: the tier operations of the call are those of its lookup,
  that is reads of the key and, if there is a write, the promotion into L1 of the entry
  that L2 returned and that failed to deserialize; Redis is unchanged, and after a plain miss
  the call has performed no write and the cache is as it was. The next \<open>GetData\<close> on the
  key invokes its data source again when it runs under the same lookup environment, and,
  whatever the clock and the health of the tiers, when before the call no enabled tier
  held an entry for the key that deserializes.
\<close>

theorem GetData_empty_result:
  "cached_list json (fst (Get (cache f) e K)) = None \<and> fetchFunc () = ([], None)
   \<longrightarrow> snd (fst (GetData f json e ew K p s ttl fetchFunc)) = None
     \<and> map_option FromCache (fst (fst (GetData f json e ew K p s ttl fetchFunc))) = Some False
     \<and> map_option Data (fst (fst (GetData f json e ew K p s ttl fetchFunc))) = Some []
     \<and> map_option Total (fst (fst (GetData f json e ew K p s ttl fetchFunc))) = Some 0
     \<and> map_option Code (fst (fst (GetData f json e ew K p s ttl fetchFunc))) = Some 200
     \<and> fetch_calls (snd (snd (GetData f json e ew K p s ttl fetchFunc))) = 1
     \<and> accesses (snd (snd (GetData f json e ew K p s ttl fetchFunc))) =
         snd (snd (Get (cache f) e K))
     \<and> cache (fst (snd (GetData f json e ew K p s ttl fetchFunc))) =
         fst (snd (Get (cache f) e K))
     \<and> (\<forall>a \<in> set (accesses (snd (snd (GetData f json e ew K p s ttl fetchFunc)))).
           a = L1_Get K \<or> a = L2_Get K \<or>
           (\<exists>v. a = L1_Set K v \<and> l1Enabled (cache f) \<and>
                redis_Get (l2Cache (cache f)) (l2_get_ok e) (now e) K = Inr v \<and>
                \<not> deserializable json v))
     \<and> l2Cache (cache (fst (snd (GetData f json e ew K p s ttl fetchFunc)))) = l2Cache (cache f)
     \<and> (fst (Get (cache f) e K) = (None, Some (CacheMiss K))
          \<longrightarrow> cache (fst (snd (GetData f json e ew K p s ttl fetchFunc))) = cache f
            \<and> set (accesses (snd (snd (GetData f json e ew K p s ttl fetchFunc))))
                \<subseteq> {L1_Get K, L2_Get K})
     \<and> fetch_calls (snd (snd (GetData (fst (snd (GetData f json e ew K p s ttl fetchFunc)))
           json e ew' K p s ttl fetchNext))) = 1
     \<and> ((\<forall>v. tier_holds (cache f) K v \<longrightarrow> \<not> deserializable json v)
          \<longrightarrow> fetch_calls (snd (snd (GetData (fst (snd (GetData f json e ew K p s ttl fetchFunc)))
                 json e' ew' K p s ttl fetchNext))) = 1)"
proof
  assume h: "cached_list json (fst (Get (cache f) e K)) = None \<and> fetchFunc () = ([], None)"
  let ?m1 = "fst (snd (Get (cache f) e K))"
  have u: "GetData f json e ew K p s ttl fetchFunc =
            ((Some (SimpleSuccessResponse (now ew) p s [] False), None),
             f\<lparr>cache := ?m1\<rparr>,
             \<lparr>fetch_calls = 1, accesses = snd (snd (Get (cache f) e K))\<rparr>)"
    using h by (simp add: GetData_miss_unfold write_back_def)
  have r: "FromCache (SimpleSuccessResponse (now ew) p s [] False) = False \<and>
           Data (SimpleSuccessResponse (now ew) p s [] False) = [] \<and>
           Total (SimpleSuccessResponse (now ew) p s [] False) = 0 \<and>
           Code (SimpleSuccessResponse (now ew) p s [] False) = 200"
    by (simp add: SimpleSuccessResponse_def SuccessResponse_def)
  have m: "fst (Get (cache f) e K) = (None, Some (CacheMiss K)) \<longrightarrow> ?m1 = cache f"
    using Get_result_cases [of "cache f" e K] by auto
  have w: "\<forall>a \<in> set (snd (snd (Get (cache f) e K))).
           a = L1_Get K \<or> a = L2_Get K \<or>
           (\<exists>v. a = L1_Set K v \<and> l1Enabled (cache f) \<and>
                redis_Get (l2Cache (cache f)) (l2_get_ok e) (now e) K = Inr v \<and>
                \<not> deserializable json v)"
    using h lookup_trace_writes [of json "cache f" e K] by blast
  have t: "fst (Get (cache f) e K) = (None, Some (CacheMiss K))
           \<longrightarrow> set (snd (snd (Get (cache f) e K))) \<subseteq> {L1_Get K, L2_Get K}"
    using Get_miss_trace [of "cache f" e K] by blast
  have again: "cached_list json (fst (Get (cache (f\<lparr>cache := ?m1\<rparr>)) e K)) = None"
    using h by (simp add: Get_again)
  have nxt: "fetch_calls (snd (snd (GetData (f\<lparr>cache := ?m1\<rparr>) json e ew' K p s ttl fetchNext))) = 1"
    by (rule GetData_miss_calls [OF again])
  have later: "fetch_calls (snd (snd (GetData (f\<lparr>cache := ?m1\<rparr>) json e' ew' K p s ttl fetchNext))) = 1"
    if ne: "\<forall>v. tier_holds (cache f) K v \<longrightarrow> \<not> deserializable json v"
  proof -
    have "cached_list json (fst (Get (cache (f\<lparr>cache := ?m1\<rparr>)) e' K)) = None"
      using later_lookup_unusable [OF ne, of e e'] by simp
    then show ?thesis by (rule GetData_miss_calls)
  qed
  show "snd (fst (GetData f json e ew K p s ttl fetchFunc)) = None
     \<and> map_option FromCache (fst (fst (GetData f json e ew K p s ttl fetchFunc))) = Some False
     \<and> map_option Data (fst (fst (GetData f json e ew K p s ttl fetchFunc))) = Some []
     \<and> map_option Total (fst (fst (GetData f json e ew K p s ttl fetchFunc))) = Some 0
     \<and> map_option Code (fst (fst (GetData f json e ew K p s ttl fetchFunc))) = Some 200
     \<and> fetch_calls (snd (snd (GetData f json e ew K p s ttl fetchFunc))) = 1
     \<and> accesses (snd (snd (GetData f json e ew K p s ttl fetchFunc))) =
         snd (snd (Get (cache f) e K))
     \<and> cache (fst (snd (GetData f json e ew K p s ttl fetchFunc))) =
         fst (snd (Get (cache f) e K))
     \<and> (\<forall>a \<in> set (accesses (snd (snd (GetData f json e ew K p s ttl fetchFunc)))).
           a = L1_Get K \<or> a = L2_Get K \<or>
           (\<exists>v. a = L1_Set K v \<and> l1Enabled (cache f) \<and>
                redis_Get (l2Cache (cache f)) (l2_get_ok e) (now e) K = Inr v \<and>
                \<not> deserializable json v))
     \<and> l2Cache (cache (fst (snd (GetData f json e ew K p s ttl fetchFunc)))) = l2Cache (cache f)
     \<and> (fst (Get (cache f) e K) = (None, Some (CacheMiss K))
          \<longrightarrow> cache (fst (snd (GetData f json e ew K p s ttl fetchFunc))) = cache f
            \<and> set (accesses (snd (snd (GetData f json e ew K p s ttl fetchFunc))))
                \<subseteq> {L1_Get K, L2_Get K})
     \<and> fetch_calls (snd (snd (GetData (fst (snd (GetData f json e ew K p s ttl fetchFunc)))
           json e ew' K p s ttl fetchNext))) = 1
     \<and> ((\<forall>v. tier_holds (cache f) K v \<longrightarrow> \<not> deserializable json v)
          \<longrightarrow> fetch_calls (snd (snd (GetData (fst (snd (GetData f json e ew K p s ttl fetchFunc)))
                 json e' ew' K p s ttl fetchNext))) = 1)"
    unfolding u using r m w t nxt later by (simp add: Get_l2_unchanged)
qed

theorem GetData_empty_result_witness:
  "cached_list demo_json (fst (Get (cache demo_fetcher) (healthy 0) ''demo_hot'')) = None \<and>
   empty_source () = ([], None) \<and>
   fst (Get (cache demo_fetcher) (healthy 0) ''demo_hot'') = (None, Some (CacheMiss ''demo_hot'')) \<and>
   (\<forall>v. \<not> tier_holds (cache demo_fetcher) ''demo_hot'' v) \<and>
   GetData demo_fetcher demo_json (healthy 0) (healthy 5) ''demo_hot'' ''demo'' ''hot''
       one_hour empty_source =
     ((Some \<lparr>Code = 200, Message = ''success'', Name = ''demo'', Title = ''demo'', Type = ''hot'',
             Description = [], Link = [], UpdateTime = 5, Total = 0, FromCache = False,
             Data = []\<rparr>, None),
      demo_fetcher, \<lparr>fetch_calls = 1, accesses = [L1_Get ''demo_hot'']\<rparr>) \<and>
   fetch_calls (snd (snd (GetData demo_fetcher demo_json (healthy 9) (healthy 9)
       ''demo_hot'' ''demo'' ''hot'' one_hour demo_source))) = 1 \<and>
   cached_list demo_json (fst (Get (cache corrupt_fetcher) (healthy 1000) ''demo_hot'')) = None \<and>
   tier_holds (cache corrupt_fetcher) ''demo_hot'' [123] \<and>
   \<not> deserializable demo_json [123] \<and>
   map_option FromCache (fst (fst (GetData corrupt_fetcher demo_json (healthy 1000) (healthy 1005)
       ''demo_hot'' ''demo'' ''hot'' one_hour empty_source))) = Some False \<and>
   fetch_calls (snd (snd (GetData
       (fst (snd (GetData corrupt_fetcher demo_json (healthy 1000) (healthy 1005)
          ''demo_hot'' ''demo'' ''hot'' one_hour empty_source)))
       demo_json (healthy 400000000000) (healthy 400000000000)
       ''demo_hot'' ''demo'' ''hot'' one_hour demo_source))) = 1"
proof -
  have h: "cached_list demo_json (fst (Get (cache demo_fetcher) (healthy 0) ''demo_hot'')) = None \<and>
   empty_source () = ([], None) \<and>
   fst (Get (cache demo_fetcher) (healthy 0) ''demo_hot'') = (None, Some (CacheMiss ''demo_hot''))"
    by (simp add: run_defs)
  have nh: "\<forall>v. \<not> tier_holds (cache demo_fetcher) ''demo_hot'' v"
    by (simp add: run_defs tier_holds_def)
  have hc: "cached_list demo_json (fst (Get (cache corrupt_fetcher) (healthy 1000) ''demo_hot'')) = None \<and>
   tier_holds (cache corrupt_fetcher) ''demo_hot'' [123] \<and>
   \<not> deserializable demo_json [123]"
    by (simp add: run_defs more_defs)
  have only: "\<forall>v. tier_holds (cache corrupt_fetcher) ''demo_hot'' v \<longrightarrow>
                  \<not> deserializable demo_json v"
    by (simp add: run_defs more_defs)
  note t = GetData_empty_result [where f = demo_fetcher and json = demo_json
      and e = "healthy 0" and ew = "healthy 5" and K = "''demo_hot''" and fetchFunc = empty_source
      and p = "''demo''" and s = "''hot''" and ttl = one_hour and e' = "healthy 9"
      and ew' = "healthy 9" and fetchNext = demo_source]
  note tc = GetData_empty_result [where f = corrupt_fetcher and json = demo_json
      and e = "healthy 1000" and ew = "healthy 1005" and K = "''demo_hot''"
      and fetchFunc = empty_source and p = "''demo''" and s = "''hot''" and ttl = one_hour
      and e' = "healthy 400000000000" and ew' = "healthy 400000000000"
      and fetchNext = demo_source]
  have r: "GetData demo_fetcher demo_json (healthy 0) (healthy 5) ''demo_hot'' ''demo'' ''hot''
       one_hour empty_source =
     ((Some \<lparr>Code = 200, Message = ''success'', Name = ''demo'', Title = ''demo'', Type = ''hot'',
             Description = [], Link = [], UpdateTime = 5, Total = 0, FromCache = False,
             Data = []\<rparr>, None),
      demo_fetcher, \<lparr>fetch_calls = 1, accesses = [L1_Get ''demo_hot'']\<rparr>)"
    by (simp add: run_defs more_defs)
  have n: "fetch_calls (snd (snd (GetData demo_fetcher demo_json (healthy 9) (healthy 9)
       ''demo_hot'' ''demo'' ''hot'' one_hour demo_source))) = 1"
    using t h nh r by simp
  have c: "map_option FromCache (fst (fst (GetData corrupt_fetcher demo_json (healthy 1000) (healthy 1005)
       ''demo_hot'' ''demo'' ''hot'' one_hour empty_source))) = Some False \<and>
   fetch_calls (snd (snd (GetData
       (fst (snd (GetData corrupt_fetcher demo_json (healthy 1000) (healthy 1005)
          ''demo_hot'' ''demo'' ''hot'' one_hour empty_source)))
       demo_json (healthy 400000000000) (healthy 400000000000)
       ''demo_hot'' ''demo'' ''hot'' one_hour demo_source))) = 1"
    using tc hc h only by blast
  show ?thesis using h nh hc r n c by simp
qed

text \<open>
  Claim C4 as stated fails in two ways. With an entry in Redis that is not JSON, the call
  that gets the empty list has promoted that entry into L1: a cache write for the key.
  And with a valid entry in Redis that cannot be read at the time of the first call (a
  Redis error is a miss), the call gets the empty list from the data source, and the next
  call, Redis being readable again, is served from the cache without invoking the data
  source.
\<close>

theorem GetData_empty_result_counterexample:
  "cached_list demo_json (fst (Get (cache corrupt_fetcher) (healthy 1000) ''demo_hot'')) = None \<and>
   empty_source () = ([], None) \<and>
   accesses (snd (snd (GetData corrupt_fetcher demo_json (healthy 1000) (healthy 1005)
         ''demo_hot'' ''demo'' ''hot'' one_hour empty_source))) =
     [L1_Get ''demo_hot'', L2_Get ''demo_hot'', L1_Set ''demo_hot'' [123]] \<and>
   bc_entries (l1Cache (cache corrupt_fetcher)) ''demo_hot'' = None \<and>
   bc_entries (l1Cache (cache (fst (snd (GetData corrupt_fetcher demo_json (healthy 1000)
       (healthy 1005) ''demo_hot'' ''demo'' ''hot'' one_hour empty_source))))) ''demo_hot'' =
     Some ([123], 1000) \<and>
   cached_list demo_json (fst (Get (cache two_tier_fetcher) (l2_unreadable 1000) ''demo_hot'')) = None \<and>
   map_option Data (fst (fst (GetData two_tier_fetcher demo_json (l2_unreadable 1000) (healthy 1005)
       ''demo_hot'' ''demo'' ''hot'' one_hour empty_source))) = Some [] \<and>
   fetch_calls (snd (snd (GetData two_tier_fetcher demo_json (l2_unreadable 1000) (healthy 1005)
       ''demo_hot'' ''demo'' ''hot'' one_hour empty_source))) = 1 \<and>
   fetch_calls (snd (snd (GetData
       (fst (snd (GetData two_tier_fetcher demo_json (l2_unreadable 1000) (healthy 1005)
          ''demo_hot'' ''demo'' ''hot'' one_hour empty_source)))
       demo_json (healthy 2000) (healthy 2005)
       ''demo_hot'' ''demo'' ''hot'' one_hour demo_source))) = 0 \<and>
   map_option FromCache (fst (fst (GetData
       (fst (snd (GetData two_tier_fetcher demo_json (l2_unreadable 1000) (healthy 1005)
          ''demo_hot'' ''demo'' ''hot'' one_hour empty_source)))
       demo_json (healthy 2000) (healthy 2005)
       ''demo_hot'' ''demo'' ''hot'' one_hour demo_source))) = Some True"
  by (simp add: run_defs more_defs)

text \<open>
  Claim C1, as amended (cache-aside round trip). On a manager built by \<open>NewManager\<close>,
  let no enabled tier hold an entry for \<open>K\<close>, and let the data source return a
  non-empty list \<open>xs\<close> that round-trips through \<open>encoding/json\<close>: it serializes to
  \<open>bs\<close>, and \<open>bs\<close> deserializes to a list \<open>ys\<close> that serializes to \<open>bs\<close> again. The
  first \<open>GetData\<close> returns a nil error and a response with \<open>FromCache = False\<close> and the
  list \<open>xs\<close>, after one invocation of the data source. A second \<open>GetData\<close> on \<open>K\<close>
  returns a nil error and a response with \<open>FromCache = True\<close> whose list has the same
  serialization as that of the first call, without invoking its data source, provided a
  tier still serves the entry: either L1 is enabled, accepted the write, and the second
  call comes less than \<open>cfg.Cache.DefaultExpire\<close> after it (whatever \<open>ttl\<close> is), or L2 is
  enabled, accepted the write, is readable, and the expiry handed to it (\<open>ttl\<close>, or
  \<open>cfg.Cache.DefaultExpire\<close> when \<open>ttl = 0\<close>) is not positive or has not elapsed.
\<close>

theorem GetData_round_trip:
  "wf_manager (cache f) \<and>
   (l1Enabled (cache f) \<longrightarrow> bc_entries (l1Cache (cache f)) K = None) \<and>
   (l2Enabled (cache f) \<longrightarrow> l2Cache (cache f) K = None) \<and>
   fetchFunc () = (xs, None) \<and> xs \<noteq> [] \<and>
   Marshal json xs = Inr bs \<and> Unmarshal json bs = Inr ys \<and> Marshal json ys = Inr bs \<and>
   ((l1Enabled (cache f) \<and> l1_set_ok ew \<and>
     now eb < now ew + sint (Cache_DefaultExpire (cfg (cache f))))
    \<or> (l2Enabled (cache f) \<and> l2_set_ok ew \<and> l2_get_ok eb \<and>
       l2_live_at (l2_expiration (cache f) ttl) (now ew) (now eb)))
   \<longrightarrow> snd (fst (GetData f json ea ew K p s ttl fetchFunc)) = None
     \<and> map_option FromCache (fst (fst (GetData f json ea ew K p s ttl fetchFunc))) = Some False
     \<and> map_option Data (fst (fst (GetData f json ea ew K p s ttl fetchFunc))) = Some xs
     \<and> fetch_calls (snd (snd (GetData f json ea ew K p s ttl fetchFunc))) = 1
     \<and> fst (Get (cache (fst (snd (GetData f json ea ew K p s ttl fetchFunc)))) eb K) =
         (Some bs, None)
     \<and> snd (fst (GetData (fst (snd (GetData f json ea ew K p s ttl fetchFunc)))
              json eb ew' K p s ttl fetchNext)) = None
     \<and> map_option FromCache (fst (fst (GetData (fst (snd (GetData f json ea ew K p s ttl fetchFunc)))
              json eb ew' K p s ttl fetchNext))) = Some True
     \<and> map_option Data (fst (fst (GetData (fst (snd (GetData f json ea ew K p s ttl fetchFunc)))
              json eb ew' K p s ttl fetchNext))) = Some ys
     \<and> map_option (\<lambda>r. Marshal json (Data r))
          (fst (fst (GetData (fst (snd (GetData f json ea ew K p s ttl fetchFunc)))
              json eb ew' K p s ttl fetchNext))) =
        map_option (\<lambda>r. Marshal json (Data r))
          (fst (fst (GetData f json ea ew K p s ttl fetchFunc)))
     \<and> fetch_calls (snd (snd (GetData (fst (snd (GetData f json ea ew K p s ttl fetchFunc)))
              json eb ew' K p s ttl fetchNext))) = 0"
proof
  assume h: "wf_manager (cache f) \<and>
   (l1Enabled (cache f) \<longrightarrow> bc_entries (l1Cache (cache f)) K = None) \<and>
   (l2Enabled (cache f) \<longrightarrow> l2Cache (cache f) K = None) \<and>
   fetchFunc () = (xs, None) \<and> xs \<noteq> [] \<and>
   Marshal json xs = Inr bs \<and> Unmarshal json bs = Inr ys \<and> Marshal json ys = Inr bs \<and>
   ((l1Enabled (cache f) \<and> l1_set_ok ew \<and>
     now eb < now ew + sint (Cache_DefaultExpire (cfg (cache f))))
    \<or> (l2Enabled (cache f) \<and> l2_set_ok ew \<and> l2_get_ok eb \<and>
       l2_live_at (l2_expiration (cache f) ttl) (now ew) (now eb)))"
  let ?m = "cache f"
  let ?m' = "fst (snd (Set ?m ew K bs ttl))"
  have g: "fst (Get ?m ea K) = (None, Some (CacheMiss K))" "fst (snd (Get ?m ea K)) = ?m"
    using Get_no_entry [of ?m K ea] h by simp_all
  have wb: "write_back ?m json ew K xs ttl = (?m', snd (snd (Set ?m ew K bs ttl)))"
    using h by (simp add: write_back_def split: prod.splits)
  have u: "GetData f json ea ew K p s ttl fetchFunc =
            ((Some (SimpleSuccessResponse (now ew) p s xs False), None),
             f\<lparr>cache := ?m'\<rparr>,
             \<lparr>fetch_calls = 1,
              accesses = snd (snd (Get ?m ea K)) @ snd (snd (Set ?m ew K bs ttl))\<rparr>)"
    using h g wb by (simp add: GetData_miss_unfold)
  have hit: "fst (Get ?m' eb K) = (Some bs, None)"
    by (rule Get_after_Set) (use h in auto)
  have cl: "cached_list json (fst (Get (cache (f\<lparr>cache := ?m'\<rparr>)) eb K)) = Some ys"
    using hit h by (simp add: cached_list_hit)
  have u2: "GetData (f\<lparr>cache := ?m'\<rparr>) json eb ew' K p s ttl fetchNext =
     ((Some (SimpleSuccessResponse (now eb) p s ys True), None),
      (f\<lparr>cache := ?m'\<rparr>)\<lparr>cache := fst (snd (Get (cache (f\<lparr>cache := ?m'\<rparr>)) eb K))\<rparr>,
      \<lparr>fetch_calls = 0, accesses = snd (snd (Get (cache (f\<lparr>cache := ?m'\<rparr>)) eb K))\<rparr>)"
    by (rule GetData_hit_unfold [OF cl])
  have r: "FromCache (SimpleSuccessResponse t p s l c) = c \<and>
           Data (SimpleSuccessResponse t p s l c) = l" for t l c
    by (simp add: SimpleSuccessResponse_def SuccessResponse_def)
  show "snd (fst (GetData f json ea ew K p s ttl fetchFunc)) = None
     \<and> map_option FromCache (fst (fst (GetData f json ea ew K p s ttl fetchFunc))) = Some False
     \<and> map_option Data (fst (fst (GetData f json ea ew K p s ttl fetchFunc))) = Some xs
     \<and> fetch_calls (snd (snd (GetData f json ea ew K p s ttl fetchFunc))) = 1
     \<and> fst (Get (cache (fst (snd (GetData f json ea ew K p s ttl fetchFunc)))) eb K) =
         (Some bs, None)
     \<and> snd (fst (GetData (fst (snd (GetData f json ea ew K p s ttl fetchFunc)))
              json eb ew' K p s ttl fetchNext)) = None
     \<and> map_option FromCache (fst (fst (GetData (fst (snd (GetData f json ea ew K p s ttl fetchFunc)))
              json eb ew' K p s ttl fetchNext))) = Some True
     \<and> map_option Data (fst (fst (GetData (fst (snd (GetData f json ea ew K p s ttl fetchFunc)))
              json eb ew' K p s ttl fetchNext))) = Some ys
     \<and> map_option (\<lambda>r. Marshal json (Data r))
          (fst (fst (GetData (fst (snd (GetData f json ea ew K p s ttl fetchFunc)))
              json eb ew' K p s ttl fetchNext))) =
        map_option (\<lambda>r. Marshal json (Data r))
          (fst (fst (GetData f json ea ew K p s ttl fetchFunc)))
     \<and> fetch_calls (snd (snd (GetData (fst (snd (GetData f json ea ew K p s ttl fetchFunc)))
              json eb ew' K p s ttl fetchNext))) = 0"
    unfolding u using hit u2 h by (simp add: r)
qed

theorem GetData_round_trip_witness:
  "wf_manager (cache demo_fetcher) \<and>
   l1Enabled (cache demo_fetcher) \<and>
   bc_entries (l1Cache (cache demo_fetcher)) ''demo_hot'' = None \<and>
   \<not> l2Enabled (cache demo_fetcher) \<and>
   demo_source () = ([demo_record], None) \<and>
   Marshal demo_json [demo_record] = Inr demo_bytes \<and>
   Unmarshal demo_json demo_bytes = Inr [demo_record] \<and>
   l1_set_ok (healthy 0) \<and>
   now (healthy 120000000000) <
     now (healthy 0) + sint (Cache_DefaultExpire (cfg (cache demo_fetcher))) \<and>
   map_option FromCache (fst (fst (GetData demo_fetcher demo_json (healthy 0) (healthy 0)
          ''demo_hot'' ''demo'' ''hot'' one_hour demo_source))) = Some False \<and>
   map_option Data (fst (fst (GetData demo_fetcher demo_json (healthy 0) (healthy 0)
          ''demo_hot'' ''demo'' ''hot'' one_hour demo_source))) = Some [demo_record] \<and>
   map_option FromCache (fst (fst (GetData after_first_call demo_json (healthy 120000000000)
          (healthy 120000000000) ''demo_hot'' ''demo'' ''hot'' one_hour failing_source))) =
     Some True \<and>
   map_option (\<lambda>r. Marshal demo_json (Data r))
     (fst (fst (GetData after_first_call demo_json (healthy 120000000000)
          (healthy 120000000000) ''demo_hot'' ''demo'' ''hot'' one_hour failing_source))) =
     Some (Inr demo_bytes) \<and>
   map_option (\<lambda>r. Marshal demo_json (Data r))
     (fst (fst (GetData demo_fetcher demo_json (healthy 0) (healthy 0)
          ''demo_hot'' ''demo'' ''hot'' one_hour demo_source))) =
     Some (Inr demo_bytes) \<and>
   fetch_calls (snd (snd (GetData after_first_call demo_json (healthy 120000000000)
          (healthy 120000000000) ''demo_hot'' ''demo'' ''hot'' one_hour failing_source))) = 0"
proof -
  have h: "wf_manager (cache demo_fetcher) \<and>
   l1Enabled (cache demo_fetcher) \<and>
   bc_entries (l1Cache (cache demo_fetcher)) ''demo_hot'' = None \<and>
   \<not> l2Enabled (cache demo_fetcher) \<and>
   demo_source () = ([demo_record], None) \<and>
   Marshal demo_json [demo_record] = Inr demo_bytes \<and>
   Unmarshal demo_json demo_bytes = Inr [demo_record] \<and>
   l1_set_ok (healthy 0) \<and>
   now (healthy 120000000000) <
     now (healthy 0) + sint (Cache_DefaultExpire (cfg (cache demo_fetcher)))"
    by (simp add: wf_manager_def demo_source_def demo_json_def scenario_defs)
  note t = GetData_round_trip [where f = demo_fetcher and K = "''demo_hot''"
        and fetchFunc = demo_source and xs = "[demo_record]" and json = demo_json
        and bs = demo_bytes and ys = "[demo_record]" and ea = "healthy 0" and ew = "healthy 0"
        and eb = "healthy 120000000000" and ew' = "healthy 120000000000"
        and ttl = one_hour and p = "''demo''" and s = "''hot''" and fetchNext = failing_source]
  have ev: "map_option FromCache (fst (fst (GetData demo_fetcher demo_json (healthy 0) (healthy 0)
          ''demo_hot'' ''demo'' ''hot'' one_hour demo_source))) = Some False \<and>
   map_option Data (fst (fst (GetData demo_fetcher demo_json (healthy 0) (healthy 0)
          ''demo_hot'' ''demo'' ''hot'' one_hour demo_source))) = Some [demo_record] \<and>
   map_option FromCache (fst (fst (GetData after_first_call demo_json (healthy 120000000000)
          (healthy 120000000000) ''demo_hot'' ''demo'' ''hot'' one_hour failing_source))) =
     Some True \<and>
   map_option (\<lambda>r. Marshal demo_json (Data r))
     (fst (fst (GetData after_first_call demo_json (healthy 120000000000)
          (healthy 120000000000) ''demo_hot'' ''demo'' ''hot'' one_hour failing_source))) =
     Some (Inr demo_bytes) \<and>
   map_option (\<lambda>r. Marshal demo_json (Data r))
     (fst (fst (GetData demo_fetcher demo_json (healthy 0) (healthy 0)
          ''demo_hot'' ''demo'' ''hot'' one_hour demo_source))) =
     Some (Inr demo_bytes) \<and>
   fetch_calls (snd (snd (GetData after_first_call demo_json (healthy 120000000000)
          (healthy 120000000000) ''demo_hot'' ''demo'' ''hot'' one_hour failing_source))) = 0"
    unfolding after_first_call_eq
    by (simp add: GetData_def Get_def Set_def write_back_def cached_list_def bytes_of_def
        demo_source_def demo_json_def scenario_defs tier_defs Let_def
        SimpleSuccessResponse_def SuccessResponse_def)
  have g: ?thesis using h ev by simp
  show ?thesis using t g by simp
qed

text \<open>
  Claim C1 as stated fails in two ways. Default configuration (L1 only, five minutes),
  key \<open>demo_hot\<close> absent, a time to live of one hour: the first call at clock 0 caches the
  record, and a second call after thirty minutes, well before the hour has elapsed,
  returns \<open>FromCache = False\<close> and invokes the data source. And with a record whose
  \<open>Hot\<close> is the integer \<open>2^53 + 1\<close>, a second call after one minute is served from the
  cache with \<open>Hot = 2^53\<close>: its content does not serialize to the bytes of the first
  call's result.
\<close>

theorem GetData_round_trip_counterexample:
  "bc_entries (l1Cache (cache demo_fetcher)) ''demo_hot'' = None \<and>
   \<not> l2Enabled (cache demo_fetcher) \<and>
   fst (GetData demo_fetcher demo_json (healthy 0) (healthy 0)
          ''demo_hot'' ''demo'' ''hot'' one_hour demo_source) =
     (Some (SimpleSuccessResponse 0 ''demo'' ''hot'' [demo_record] False), None) \<and>
   (1800000000000 :: int) < 0 + sint one_hour \<and>
   map_option FromCache (fst (fst (GetData after_first_call demo_json (healthy 1800000000000)
          (healthy 1800000000000) ''demo_hot'' ''demo'' ''hot'' one_hour demo_source))) =
     Some False \<and>
   fetch_calls (snd (snd (GetData after_first_call demo_json (healthy 1800000000000)
          (healthy 1800000000000) ''demo_hot'' ''demo'' ''hot'' one_hour demo_source))) = 1 \<and>
   big_source () = ([big_record], None) \<and>
   map_option Data (fst (fst (GetData demo_fetcher number_json (healthy 0) (healthy 0)
          ''demo_hot'' ''demo'' ''hot'' one_hour big_source))) = Some [big_record] \<and>
   map_option FromCache (fst (fst (GetData after_big_call number_json (healthy 60000000000)
          (healthy 60000000000) ''demo_hot'' ''demo'' ''hot'' one_hour big_source))) =
     Some True \<and>
   map_option Data (fst (fst (GetData after_big_call number_json (healthy 60000000000)
          (healthy 60000000000) ''demo_hot'' ''demo'' ''hot'' one_hour big_source))) =
     Some [big_record_read] \<and>
   Marshal number_json [big_record] = Inr big_bytes \<and>
   Marshal number_json [big_record_read] = Inr big_bytes_read \<and>
   big_bytes \<noteq> big_bytes_read"
proof -
  have a: "after_big_call =
     \<lparr>cache = l1_only_manager\<lparr>l1Cache :=
        \<lparr>bc_config = l1_config, bc_entries = [''demo_hot'' \<mapsto> (big_bytes, 0)]\<rparr>\<rparr>,
      objectPool = NewObjectPool\<rparr>"
    by (simp add: after_big_call_def GetData_def Get_def Set_def write_back_def cached_list_def
        bytes_of_def big_source_def number_json_def big_record_def demo_record_def
        scenario_defs tier_defs Let_def)
  have ne: "big_bytes \<noteq> big_bytes_read"
    by (simp add: big_bytes_def big_bytes_read_def)
  have nr: "big_record \<noteq> big_record_read"
    by (simp add: big_record_def big_record_read_def demo_record_def)
  have first: "bc_entries (l1Cache (cache demo_fetcher)) ''demo_hot'' = None \<and>
   \<not> l2Enabled (cache demo_fetcher) \<and>
   fst (GetData demo_fetcher demo_json (healthy 0) (healthy 0)
          ''demo_hot'' ''demo'' ''hot'' one_hour demo_source) =
     (Some (SimpleSuccessResponse 0 ''demo'' ''hot'' [demo_record] False), None) \<and>
   (1800000000000 :: int) < 0 + sint one_hour \<and>
   map_option FromCache (fst (fst (GetData after_first_call demo_json (healthy 1800000000000)
          (healthy 1800000000000) ''demo_hot'' ''demo'' ''hot'' one_hour demo_source))) =
     Some False \<and>
   fetch_calls (snd (snd (GetData after_first_call demo_json (healthy 1800000000000)
          (healthy 1800000000000) ''demo_hot'' ''demo'' ''hot'' one_hour demo_source))) = 1"
    unfolding after_first_call_eq
    by (simp add: GetData_def Get_def Set_def write_back_def cached_list_def
        demo_source_def demo_json_def scenario_defs tier_defs Let_def
        SimpleSuccessResponse_def SuccessResponse_def)
  have m: "big_source () = ([big_record], None) \<and>
           Marshal number_json [big_record] = Inr big_bytes \<and>
           Marshal number_json [big_record_read] = Inr big_bytes_read"
    using nr by (simp add: big_source_def number_json_def)
  have one: "map_option Data (fst (fst (GetData demo_fetcher number_json (healthy 0) (healthy 0)
          ''demo_hot'' ''demo'' ''hot'' one_hour big_source))) = Some [big_record]"
    using m by (simp add: GetData_def Get_def Set_def write_back_def cached_list_def
        bytes_of_def big_source_def scenario_defs tier_defs Let_def
        SimpleSuccessResponse_def SuccessResponse_def split: prod.splits)
  have two: "map_option FromCache (fst (fst (GetData after_big_call number_json (healthy 60000000000)
          (healthy 60000000000) ''demo_hot'' ''demo'' ''hot'' one_hour big_source))) =
     Some True \<and>
   map_option Data (fst (fst (GetData after_big_call number_json (healthy 60000000000)
          (healthy 60000000000) ''demo_hot'' ''demo'' ''hot'' one_hour big_source))) =
     Some [big_record_read]"
    unfolding a
    by (simp add: GetData_def Get_def cached_list_def bytes_of_def number_json_def
        scenario_defs tier_defs Let_def SimpleSuccessResponse_def SuccessResponse_def)
  show ?thesis using first m one two ne by simp
qed

section \<open>The warmup task and its deadline\<close>

text \<open>
  Claim C9 (warmup per-fetch deadline) does not hold of the code. The task creates a
  context with a deadline of 15 seconds, but the request does not run under it: the
  report of a task depends on the client's call alone, and against an endpoint that never
  answers the request of the task for \<open>/weibo\<close> runs for 66 seconds, beyond the 15
  seconds of the task's context.
\<close>

theorem warmup_fetch_outlives_task_deadline:
  "warmup_task (Some hanging_client) ''/weibo'' =
     \<lparr>platform = ''/weibo'', task_ctx = \<lparr>ctx_timeout = 15000000000\<rparr>, fetched = True,
      warmed = False, fetch_duration = 66000000000\<rparr> \<and>
   sint (ctx_timeout (task_ctx (warmup_task (Some hanging_client) ''/weibo''))) <
     fetch_duration (warmup_task (Some hanging_client) ''/weibo'')"
  by (simp add: warmup_task_def hanging_client_def WithTimeout_def Let_def)

end
